theory Spec2Isabelle
  imports Main
begin

section \<open>Text helpers of the transactions page\<close>

text \<open>
  \<^verbatim>\<open>str.split(' ')\<close>: the pieces between single spaces. The empty string gives one
  empty piece, two adjacent spaces give an empty piece between them.
\<close>

fun split_on :: "char \<Rightarrow> string \<Rightarrow> string list" where
  "split_on c [] = [[]]"
| "split_on c (x # xs) =
     (if x = c then [] # split_on c xs
      else (case split_on c xs of
              w # ws \<Rightarrow> (x # w) # ws
            | [] \<Rightarrow> [[x]]))"

text \<open>\<^verbatim>\<open>words.join(sep)\<close>.\<close>

fun join_with :: "string \<Rightarrow> string list \<Rightarrow> string" where
  "join_with sep [] = []"
| "join_with sep [w] = w"
| "join_with sep (w # v # ws) = w @ sep @ join_with sep (v # ws)"

text \<open>
  \<^verbatim>\<open>
  function truncateWords(str, numWords) {
      if (!str) return '';
      const words = str.split(' ');
      if (words.length <= numWords) return str;
      return words.slice(0, numWords).join(' ') + '...';
  }
  \<close>
  The argument is a string, which is falsy exactly when it is empty; the word count is a
  natural number, for which \<^verbatim>\<open>slice(0, numWords)\<close> is \<^const>\<open>take\<close>.
\<close>

definition truncateWords :: "string \<Rightarrow> nat \<Rightarrow> string" where
  "truncateWords str numWords =
     (if str = [] then []
      else let words = split_on (CHR '' '') str
           in if length words \<le> numWords then str
              else join_with '' '' (take numWords words) @ ''...'')"

section \<open>Values exchanged with the server\<close>

text \<open>
  A JavaScript value as the scripts see it, parsed from JSON or read from a variable. A
  number is held as the text that JavaScript prints for it (\<^verbatim>\<open>String(n)\<close>, so \<open>0\<close> and
  \<open>-0\<close> are both \<open>JNum ''0''\<close>): the scripts only interpolate numbers into text and
  test them for truth. An object is its list of fields, the first binding of a name
  being the field.
\<close>

datatype jsval =
    JUndefined
  | JNull
  | JBool bool
  | JNum string
  | JStr string
  | JArr "jsval list"
  | JObj "(string \<times> jsval) list"

text \<open>The truth value of \<^verbatim>\<open>if (v)\<close>, \<^verbatim>\<open>!v\<close> and \<^verbatim>\<open>v || w\<close>.\<close>

fun truthy :: "jsval \<Rightarrow> bool" where
  "truthy JUndefined = False"
| "truthy JNull = False"
| "truthy (JBool b) = b"
| "truthy (JNum n) = (n \<noteq> ''0'' \<and> n \<noteq> ''NaN'')"
| "truthy (JStr s) = (s \<noteq> [])"
| "truthy (JArr xs) = True"
| "truthy (JObj kvs) = True"

definition js_or :: "jsval \<Rightarrow> jsval \<Rightarrow> jsval" where
  "js_or a b = (if truthy a then a else b)"

text \<open>Reading a field of \<^verbatim>\<open>null\<close> or \<^verbatim>\<open>undefined\<close> throws a TypeError.\<close>

fun nullish :: "jsval \<Rightarrow> bool" where
  "nullish JUndefined = True"
| "nullish JNull = True"
| "nullish v = False"

text \<open>
  \<^verbatim>\<open>v.k\<close> for a value that is not nullish, for the field names the scripts read
  (none of them is \<^verbatim>\<open>length\<close> or a method of strings and arrays): the field of an
  object, \<^verbatim>\<open>undefined\<close> when the object has no such field or the value is not an
  object.
\<close>

fun js_get :: "jsval \<Rightarrow> string \<Rightarrow> jsval" where
  "js_get (JObj kvs) k = (case map_of kvs k of Some v \<Rightarrow> v | None \<Rightarrow> JUndefined)"
| "js_get v k = JUndefined"

text \<open>The string a template literal \<^verbatim>\<open>${v}\<close> or a concatenation \<^verbatim>\<open>'' + v\<close> inserts.\<close>

fun to_string :: "jsval \<Rightarrow> string" where
  "to_string JUndefined = ''undefined''"
| "to_string JNull = ''null''"
| "to_string (JBool b) = (if b then ''true'' else ''false'')"
| "to_string (JNum n) = n"
| "to_string (JStr s) = s"
| "to_string (JArr xs) = join_with '','' (map (\<lambda>x. if nullish x then [] else to_string x) xs)"
| "to_string (JObj kvs) = ''[object Object]''"

text \<open>
  What \<^verbatim>\<open>fetch(...).then(response => response.json())\<close> settles to: the request fails
  on the network, the body is not JSON, or the body parses to a value.
\<close>

datatype 'a fetch_result = NetworkError | ParseError | Parsed 'a

section \<open>Requests and visible effects\<close>

text \<open>
  A call of \<^verbatim>\<open>fetch\<close>. \<open>req_query\<close> holds the pairs of a \<^verbatim>\<open>URLSearchParams\<close> appended to
  the path (their percent-encoding is not modelled); \<open>req_body\<close> is the value handed to
  \<^verbatim>\<open>JSON.stringify\<close>.
\<close>

record request =
  req_url :: string
  req_query :: "(string \<times> string) list"
  req_method :: string
  req_headers :: "(string \<times> string) list"
  req_body :: "jsval option"

text \<open>
  What an operation does to the outside, in order. Writes to the document are recorded,
  not interpreted, and showing or hiding a modal through Bootstrap is taken to succeed
  (each operation is started from a button of the modal it closes).
  \<open>Toast message kind html\<close> is a call \<^verbatim>\<open>showToast(message, kind)\<close> that inserts the
  markup \<open>html\<close> at the end of the toast container and has Bootstrap show the element
  it made. \<open>Uncaught\<close> is an exception that leaves the running handler.
\<close>

datatype effect =
    Fetch request
  | Toast jsval string string
  | Alert string
  | ConsoleError
  | HideModal string
  | ShowModal string
  | ReloadAfter nat
  | ReloadNow
  | Navigate string "(string \<times> string) list"
  | RenderDetail string jsval
  | RenderTable
  | SetValue string jsval
  | SetText string jsval
  | SetChecked string bool
  | ToggleCategoryFilters
  | ToggleRecurringFields string bool
  | ResetForm string
  | Uncaught

section \<open>Page state, the document, and promise chains\<close>

text \<open>
  The module-level variables of the page scripts, with the token that the server renders
  into the page. Each script declares its own "current entity" variable, initially
  \<^verbatim>\<open>null\<close>; the transactions page also keeps the page number and sort order of its
  listing.
\<close>

record page =
  csrfToken :: string
  currentBudget :: jsval
  currentCategory :: jsval
  currentIncomeSource :: jsval
  currentTransaction :: jsval
  currentDashboardTransaction :: jsval
  currentPage :: jsval
  currentSort :: string

text \<open>
  What the scripts read from the document when an operation runs. The templates that
  declare the controls and modals are not among the sources: a control that a script
  reads without a test is taken to exist (\<open>value_of\<close> is its \<^verbatim>\<open>.value\<close>), and \<open>present\<close>
  answers the tests the scripts do make (\<^verbatim>\<open>?.\<close> and \<^verbatim>\<open>if (!el)\<close>). \<open>render_ok\<close> says whether
  the page's detail renderer runs to its end on an entity: it formats fields of the
  entity (numbers, dates, labels) and throws when one it dereferences is missing.
  \<open>date_now\<close> is \<^verbatim>\<open>Date.now()\<close> as JavaScript prints it.
\<close>

record dom =
  value_of :: "string \<Rightarrow> string"
  present :: "string \<Rightarrow> bool"
  checked :: "string \<Rightarrow> bool"
  checked_categories :: "string list"
  category_boxes :: "string list"
  location_pathname :: string
  location_search :: "(string \<times> string) list"
  render_ok :: "jsval \<Rightarrow> bool"
  date_now :: string

datatype completion = Done | Thrown

type_synonym step = "page \<times> effect list \<times> completion"

text \<open>
  \<^verbatim>\<open>fetch(...).then(r => r.json()).then(on_data).catch(on_error)\<close>: a failed request or
  parse, and an exception thrown by \<open>on_data\<close>, all run \<open>on_error\<close>.
\<close>

definition promise_chain ::
  "('a \<Rightarrow> step) \<Rightarrow> effect list \<Rightarrow> page \<Rightarrow> 'a fetch_result \<Rightarrow> page \<times> effect list" where
  "promise_chain on_data on_error pg r =
     (case r of
        NetworkError \<Rightarrow> (pg, on_error)
      | ParseError \<Rightarrow> (pg, on_error)
      | Parsed d \<Rightarrow>
          (case on_data d of
             (pg', es, c) \<Rightarrow> (pg', es @ (case c of Done \<Rightarrow> [] | Thrown \<Rightarrow> on_error))))"

text \<open>\<^verbatim>\<open>if (data.success) { yes } else { no }\<close>; \<^verbatim>\<open>data.success\<close> throws on \<^verbatim>\<open>null\<close>.\<close>

definition if_success :: "page \<Rightarrow> jsval \<Rightarrow> effect list \<Rightarrow> effect list \<Rightarrow> step" where
  "if_success pg d yes no =
     (if nullish d then (pg, [], Thrown)
      else if truthy (js_get d ''success'') then (pg, yes, Done)
      else (pg, no, Done))"

text \<open>
  The template literal of \<^verbatim>\<open>showToast\<close>, the same text in every script:
  \<^verbatim>\<open>
  const toastHtml = `
          <div id="${toastId}" class="toast align-items-center text-white ${bgClass} border-0" role="alert">
              <div class="d-flex">
                  <div class="toast-body">${message}</div>
                  <button type="button" class="btn-close btn-close-white me-2 m-auto" data-bs-dismiss="toast"></button>
              </div>
          </div>
      `;
  \<close>
  The three values are interpolated as they are: nothing is escaped.
\<close>

definition toast_html :: "string \<Rightarrow> string \<Rightarrow> string \<Rightarrow> string" where
  \<open>toast_html toastId bgClass message =
     ''\<newline>        <div id="'' @ toastId
     @ ''" class="toast align-items-center text-white '' @ bgClass
     @ '' border-0" role="alert">\<newline>            <div class="d-flex">\<newline>''
     @ ''                <div class="toast-body">'' @ message @ ''</div>\<newline>''
     @ ''                <button type="button" class="btn-close btn-close-white me-2 m-auto"''
     @ '' data-bs-dismiss="toast"></button>\<newline>            </div>\<newline>''
     @ ''        </div>\<newline>    ''\<close>

text \<open>
  The part of \<^verbatim>\<open>showToast(message, type)\<close> that follows the look-up of the container:
  \<^verbatim>\<open>
  const toastId = 'toast-' + Date.now();
  const bgClass = type === 'success' ? 'bg-success' : type === 'error' ? 'bg-danger' : 'bg-primary';
  const toastHtml = `...`;
  toastContainer.insertAdjacentHTML('beforeend', toastHtml);
  const toastEl = document.getElementById(toastId);
  const toast = new bootstrap.Toast(toastEl, { autohide: true, delay: 3000 });
  toast.show();
  \<close>
  The identifier is taken to be new in the document, so that the element shown is the
  one inserted.
\<close>

definition toast_element :: "dom \<Rightarrow> jsval \<Rightarrow> string \<Rightarrow> effect" where
  "toast_element d message kind =
     (let toastId = ''toast-'' @ date_now d;
          bgClass = (if kind = ''success'' then ''bg-success''
                     else if kind = ''error'' then ''bg-danger''
                     else ''bg-primary'');
          toastHtml = toast_html toastId bgClass (to_string message)
      in Toast message kind toastHtml)"

text \<open>
  \<^verbatim>\<open>showToast(message, type)\<close>. The budgets, categories, profile and dashboard scripts
  create the toast container when it is missing; the transactions scripts return
  without a toast when it is missing.
\<close>

definition showToast :: "dom \<Rightarrow> jsval \<Rightarrow> string \<Rightarrow> effect list" where
  "showToast d message kind = [toast_element d message kind]"

definition showToast_guarded :: "dom \<Rightarrow> jsval \<Rightarrow> string \<Rightarrow> effect list" where
  "showToast_guarded d message kind =
     (if present d ''toast-container'' then [toast_element d message kind] else [])"

text \<open>The three shapes of \<^verbatim>\<open>fetch\<close> call in the scripts.\<close>

definition get_plain :: "string \<Rightarrow> request" where
  "get_plain url =
     \<lparr>req_url = url, req_query = [], req_method = ''GET'', req_headers = [],
      req_body = None\<rparr>"

definition post_json :: "page \<Rightarrow> string \<Rightarrow> jsval \<Rightarrow> request" where
  "post_json pg url body =
     \<lparr>req_url = url, req_query = [], req_method = ''POST'',
      req_headers = [(''Content-Type'', ''application/json''), (''X-CSRFToken'', csrfToken pg)],
      req_body = Some body\<rparr>"

definition post_bare :: "page \<Rightarrow> string \<Rightarrow> request" where
  "post_bare pg url =
     \<lparr>req_url = url, req_query = [], req_method = ''POST'',
      req_headers = [(''X-CSRFToken'', csrfToken pg)],
      req_body = None\<rparr>"

text \<open>
  A detail renderer (\<^verbatim>\<open>showBudgetDetailModal\<close> and its siblings): it fills the fields of
  the detail modal and shows it, or throws part-way.
\<close>

definition show_detail :: "dom \<Rightarrow> string \<Rightarrow> jsval \<Rightarrow> effect list \<times> completion" where
  "show_detail d modal entity =
     (if \<not> nullish entity \<and> render_ok d entity
      then ([RenderDetail modal entity, ShowModal modal], Done)
      else ([], Thrown))"

text \<open>
  The handler of every detail fetch:
  \<^verbatim>\<open>if (data.success) { current = data.data; show(data.data); } else { showToast(...) }\<close>.
  \<open>store\<close> is the assignment to the page's variable.
\<close>

definition view_then ::
  "(jsval \<Rightarrow> page) \<Rightarrow> (jsval \<Rightarrow> effect list \<times> completion) \<Rightarrow> effect list \<Rightarrow> page \<Rightarrow> jsval \<Rightarrow> step" where
  "view_then store render failed pg d =
     (if nullish d then (pg, [], Thrown)
      else if truthy (js_get d ''success'')
      then (case render (js_get d ''data'') of (es, c) \<Rightarrow> (store (js_get d ''data''), es, c))
      else (pg, failed, Done))"

section \<open>Budgets page\<close>

text \<open>
  The script \<^verbatim>\<open>budgets.js\<close>. Every operation has a synchronous part, named as in the
  script, which returns the page variables and the effects up to the \<^verbatim>\<open>fetch\<close> it
  issues, and a part \<open>_settled\<close> which runs when that \<^verbatim>\<open>fetch\<close> settles.
\<close>

definition viewBudget :: "jsval \<Rightarrow> dom \<Rightarrow> page \<Rightarrow> page \<times> effect list" where
  "viewBudget budgetId d pg =
     (pg, [Fetch (get_plain (''/api/budget/'' @ to_string budgetId @ ''/''))])"

definition showBudgetDetailModal :: "dom \<Rightarrow> jsval \<Rightarrow> effect list \<times> completion" where
  "showBudgetDetailModal d budget = show_detail d ''budgetDetailModal'' budget"

definition viewBudget_settled :: "dom \<Rightarrow> page \<Rightarrow> jsval fetch_result \<Rightarrow> page \<times> effect list" where
  "viewBudget_settled d pg r =
     promise_chain
       (view_then (\<lambda>v. pg\<lparr>currentBudget := v\<rparr>) (showBudgetDetailModal d)
          (showToast d (JStr ''Error loading budget'') ''error'') pg)
       (ConsoleError # showToast d (JStr ''Error loading budget'') ''error'')
       pg r"

fun is_substring :: "string \<Rightarrow> string \<Rightarrow> bool" where
  "is_substring v [] = (v = [])"
| "is_substring v (c # s) = (take (length v) (c # s) = v \<or> is_substring v s)"

text \<open>
  \<^verbatim>\<open>
  document.querySelectorAll('.budget-category').forEach(cb => {
      cb.checked = currentBudget.category_ids && currentBudget.category_ids.includes(cb.value);
  });
  \<close>
  \<open>None\<close> is the TypeError of calling \<^verbatim>\<open>includes\<close> on a truthy value that is neither an
  array nor a string, which happens as soon as there is one checkbox.
\<close>

definition check_categories :: "jsval \<Rightarrow> string list \<Rightarrow> effect list option" where
  "check_categories ids boxes =
     (if boxes = [] \<or> \<not> truthy ids then Some (map (\<lambda>v. SetChecked v False) boxes)
      else (case ids of
              JArr xs \<Rightarrow> Some (map (\<lambda>v. SetChecked v (JStr v \<in> set xs)) boxes)
            | JStr s \<Rightarrow> Some (map (\<lambda>v. SetChecked v (is_substring v s)) boxes)
            | _ \<Rightarrow> None))"

definition openEditBudgetModal :: "dom \<Rightarrow> page \<Rightarrow> page \<times> effect list" where
  "openEditBudgetModal d pg =
     (if \<not> truthy (currentBudget pg) then (pg, [])
      else
        let b = currentBudget pg in
        (pg,
         [HideModal ''budgetDetailModal'',
          SetValue ''budget-id'' (js_get b ''id''),
          SetValue ''budget-name'' (js_get b ''name''),
          SetValue ''budget-amount'' (js_get b ''amount''),
          SetValue ''budget-currency'' (js_get b ''currency''),
          SetValue ''budget-start-date'' (js_get b ''start_date''),
          SetValue ''budget-end-date'' (js_or (js_get b ''end_date'') (JStr [])),
          SetValue ''budget-recurrence'' (js_get b ''recurrence_pattern''),
          SetValue ''budget-type'' (js_get b ''budget_type''),
          ToggleCategoryFilters]
         @ (case check_categories (js_get b ''category_ids'') (category_boxes d) of
              None \<Rightarrow> [Uncaught]
            | Some es \<Rightarrow>
                es @ [SetText ''budgetModalLabel'' (JStr ''Edit Budget''),
                      ShowModal ''budgetModal''])))"

text \<open>The object that \<^verbatim>\<open>saveBudget\<close> builds from the form and serialises.\<close>

definition budget_form_data :: "dom \<Rightarrow> jsval" where
  "budget_form_data d =
     JObj ([(''name'', JStr (value_of d ''budget-name'')),
            (''amount'', JStr (value_of d ''budget-amount'')),
            (''currency'', JStr (value_of d ''budget-currency'')),
            (''start_date'', JStr (value_of d ''budget-start-date'')),
            (''end_date'', js_or (JStr (value_of d ''budget-end-date'')) JNull),
            (''recurrence_pattern'', JStr (value_of d ''budget-recurrence'')),
            (''budget_type'', JStr (value_of d ''budget-type''))]
           @ (if value_of d ''budget-type'' = ''category_filter''
              then [(''category_ids'', JArr (map JStr (checked_categories d)))]
              else []))"

definition saveBudget :: "dom \<Rightarrow> page \<Rightarrow> page \<times> effect list" where
  "saveBudget d pg =
     (let id = value_of d ''budget-id'';
          url = (if id \<noteq> [] then ''/api/budget/'' @ id @ ''/update/''
                 else ''/api/budget/create/'')
      in (pg, [Fetch (post_json pg url (budget_form_data d))]))"

definition saveBudget_settled :: "dom \<Rightarrow> page \<Rightarrow> jsval fetch_result \<Rightarrow> page \<times> effect list" where
  "saveBudget_settled d pg r =
     promise_chain
       (\<lambda>v. if_success pg v
          (showToast d (js_or (js_get v ''message'') (JStr ''Budget saved successfully'')) ''success''
           @ [HideModal ''budgetModal'', ReloadAfter 500])
          (showToast d (js_or (js_get v ''error'') (JStr ''Error saving budget'')) ''error''))
       (ConsoleError # showToast d (JStr ''An error occurred'') ''error'')
       pg r"

definition toggleBudgetStatus :: "dom \<Rightarrow> page \<Rightarrow> page \<times> effect list" where
  "toggleBudgetStatus d pg =
     (if \<not> truthy (currentBudget pg) then (pg, [])
      else
        let newStatus = (if js_get (currentBudget pg) ''status'' = JStr ''active''
                         then ''inactive'' else ''active'')
        in (pg, [Fetch (post_json pg
                   (''/api/budget/'' @ to_string (js_get (currentBudget pg) ''id'')
                      @ ''/toggle-status/'')
                   (JObj [(''status'', JStr newStatus)]))]))"

definition toggleBudgetStatus_settled ::
  "dom \<Rightarrow> page \<Rightarrow> jsval fetch_result \<Rightarrow> page \<times> effect list" where
  "toggleBudgetStatus_settled d pg r =
     promise_chain
       (\<lambda>v. if_success pg v
          (showToast d (js_or (js_get v ''message'') (JStr ''Budget status updated'')) ''success''
           @ [HideModal ''budgetDetailModal'', ReloadAfter 500])
          (showToast d (js_or (js_get v ''error'') (JStr ''Error updating status'')) ''error''))
       (ConsoleError # showToast d (JStr ''An error occurred'') ''error'')
       pg r"

definition openDeleteBudgetModal :: "dom \<Rightarrow> page \<Rightarrow> page \<times> effect list" where
  "openDeleteBudgetModal d pg =
     (if \<not> truthy (currentBudget pg) then (pg, [])
      else (pg, [HideModal ''budgetDetailModal'',
                 SetText ''delete-budget-name'' (js_get (currentBudget pg) ''name''),
                 ShowModal ''deleteBudgetModal'']))"

definition confirmDeleteBudget :: "dom \<Rightarrow> page \<Rightarrow> page \<times> effect list" where
  "confirmDeleteBudget d pg =
     (if \<not> truthy (currentBudget pg) then (pg, [])
      else (pg, [Fetch (post_bare pg
                   (''/api/budget/'' @ to_string (js_get (currentBudget pg) ''id'')
                      @ ''/delete/''))]))"

definition confirmDeleteBudget_settled ::
  "dom \<Rightarrow> page \<Rightarrow> jsval fetch_result \<Rightarrow> page \<times> effect list" where
  "confirmDeleteBudget_settled d pg r =
     promise_chain
       (\<lambda>v. if_success pg v
          (showToast d (js_or (js_get v ''message'') (JStr ''Budget deleted'')) ''success''
           @ [HideModal ''deleteBudgetModal'', ReloadAfter 500])
          (showToast d (js_or (js_get v ''error'') (JStr ''Error deleting budget'')) ''error''))
       (ConsoleError # showToast d (JStr ''An error occurred'') ''error'')
       pg r"

section \<open>Categories page\<close>

text \<open>
  The script \<^verbatim>\<open>categories.js\<close>. Categories and income sources share it and have one
  variable each.
\<close>

definition viewCategory :: "jsval \<Rightarrow> dom \<Rightarrow> page \<Rightarrow> page \<times> effect list" where
  "viewCategory categoryId d pg =
     (pg, [Fetch (get_plain (''/api/category/'' @ to_string categoryId @ ''/''))])"

definition showCategoryDetailModal :: "dom \<Rightarrow> jsval \<Rightarrow> effect list \<times> completion" where
  "showCategoryDetailModal d entity = show_detail d ''categoryDetailModal'' entity"

definition viewCategory_settled :: "dom \<Rightarrow> page \<Rightarrow> jsval fetch_result \<Rightarrow> page \<times> effect list" where
  "viewCategory_settled d pg r =
     promise_chain
       (view_then (\<lambda>v. pg\<lparr>currentCategory := v\<rparr>) (showCategoryDetailModal d)
          (showToast d (JStr ''Error loading category'') ''error'') pg)
       (ConsoleError # showToast d (JStr ''Error loading category'') ''error'')
       pg r"

definition openEditCategoryModal :: "dom \<Rightarrow> page \<Rightarrow> page \<times> effect list" where
  "openEditCategoryModal d pg =
     (if \<not> truthy (currentCategory pg) then (pg, [])
      else (pg, [HideModal ''categoryDetailModal'',
                 SetValue ''category-id'' (js_get (currentCategory pg) ''id''),
                 SetValue ''category-name'' (js_get (currentCategory pg) ''name''),
                 SetValue ''category-icon'' (js_or (js_get (currentCategory pg) ''icon'') (JStr [])),
                 SetText ''categoryModalLabel'' (JStr ''Edit Category''),
                 ShowModal ''categoryModal'']))"

definition saveCategory :: "dom \<Rightarrow> page \<Rightarrow> page \<times> effect list" where
  "saveCategory d pg =
     (let id = value_of d ''category-id'';
          body = JObj [(''name'', JStr (value_of d ''category-name'')),
                       (''icon'', js_or (JStr (value_of d ''category-icon'')) JNull)];
          url = (if id \<noteq> [] then ''/api/category/'' @ id @ ''/update/''
                 else ''/api/category/create/'')
      in (pg, [Fetch (post_json pg url body)]))"

definition saveCategory_settled :: "dom \<Rightarrow> page \<Rightarrow> jsval fetch_result \<Rightarrow> page \<times> effect list" where
  "saveCategory_settled d pg r =
     promise_chain
       (\<lambda>v. if_success pg v
          (showToast d (js_or (js_get v ''message'') (JStr ''Category saved successfully'')) ''success''
           @ [HideModal ''categoryModal'', ReloadAfter 500])
          (showToast d (js_or (js_get v ''error'') (JStr ''Error saving category'')) ''error''))
       (ConsoleError # showToast d (JStr ''An error occurred'') ''error'')
       pg r"

definition openDeleteCategoryModal :: "dom \<Rightarrow> page \<Rightarrow> page \<times> effect list" where
  "openDeleteCategoryModal d pg =
     (if \<not> truthy (currentCategory pg) then (pg, [])
      else (pg, [HideModal ''categoryDetailModal'',
                 SetText ''delete-category-name'' (js_get (currentCategory pg) ''name''),
                 ShowModal ''deleteCategoryModal'']))"

definition confirmDeleteCategory :: "dom \<Rightarrow> page \<Rightarrow> page \<times> effect list" where
  "confirmDeleteCategory d pg =
     (if \<not> truthy (currentCategory pg) then (pg, [])
      else (pg, [Fetch (post_bare pg
                   (''/api/category/'' @ to_string (js_get (currentCategory pg) ''id'') @ ''/delete/''))]))"

definition confirmDeleteCategory_settled :: "dom \<Rightarrow> page \<Rightarrow> jsval fetch_result \<Rightarrow> page \<times> effect list" where
  "confirmDeleteCategory_settled d pg r =
     promise_chain
       (\<lambda>v. if_success pg v
          (showToast d (js_or (js_get v ''message'') (JStr ''Category deleted'')) ''success''
           @ [HideModal ''deleteCategoryModal'', ReloadAfter 500])
          (showToast d (js_or (js_get v ''error'') (JStr ''Error deleting category'')) ''error''))
       (ConsoleError # showToast d (JStr ''An error occurred'') ''error'')
       pg r"

definition viewIncomeSource :: "jsval \<Rightarrow> dom \<Rightarrow> page \<Rightarrow> page \<times> effect list" where
  "viewIncomeSource sourceId d pg =
     (pg, [Fetch (get_plain (''/api/income-source/'' @ to_string sourceId @ ''/''))])"

definition showIncomeSourceDetailModal :: "dom \<Rightarrow> jsval \<Rightarrow> effect list \<times> completion" where
  "showIncomeSourceDetailModal d entity = show_detail d ''incomeSourceDetailModal'' entity"

definition viewIncomeSource_settled :: "dom \<Rightarrow> page \<Rightarrow> jsval fetch_result \<Rightarrow> page \<times> effect list" where
  "viewIncomeSource_settled d pg r =
     promise_chain
       (view_then (\<lambda>v. pg\<lparr>currentIncomeSource := v\<rparr>) (showIncomeSourceDetailModal d)
          (showToast d (JStr ''Error loading income source'') ''error'') pg)
       (ConsoleError # showToast d (JStr ''Error loading income source'') ''error'')
       pg r"

definition openEditIncomeSourceModal :: "dom \<Rightarrow> page \<Rightarrow> page \<times> effect list" where
  "openEditIncomeSourceModal d pg =
     (if \<not> truthy (currentIncomeSource pg) then (pg, [])
      else (pg, [HideModal ''incomeSourceDetailModal'',
                 SetValue ''source-id'' (js_get (currentIncomeSource pg) ''id''),
                 SetValue ''source-name'' (js_get (currentIncomeSource pg) ''name''),
                 SetValue ''source-icon'' (js_or (js_get (currentIncomeSource pg) ''icon'') (JStr [])),
                 SetText ''incomeSourceModalLabel'' (JStr ''Edit Income Source''),
                 ShowModal ''incomeSourceModal'']))"

definition saveIncomeSource :: "dom \<Rightarrow> page \<Rightarrow> page \<times> effect list" where
  "saveIncomeSource d pg =
     (let id = value_of d ''source-id'';
          body = JObj [(''name'', JStr (value_of d ''source-name'')),
                       (''icon'', js_or (JStr (value_of d ''source-icon'')) JNull)];
          url = (if id \<noteq> [] then ''/api/income-source/'' @ id @ ''/update/''
                 else ''/api/income-source/create/'')
      in (pg, [Fetch (post_json pg url body)]))"

definition saveIncomeSource_settled :: "dom \<Rightarrow> page \<Rightarrow> jsval fetch_result \<Rightarrow> page \<times> effect list" where
  "saveIncomeSource_settled d pg r =
     promise_chain
       (\<lambda>v. if_success pg v
          (showToast d (js_or (js_get v ''message'') (JStr ''Income source saved successfully'')) ''success''
           @ [HideModal ''incomeSourceModal'', ReloadAfter 500])
          (showToast d (js_or (js_get v ''error'') (JStr ''Error saving income source'')) ''error''))
       (ConsoleError # showToast d (JStr ''An error occurred'') ''error'')
       pg r"

definition openDeleteIncomeSourceModal :: "dom \<Rightarrow> page \<Rightarrow> page \<times> effect list" where
  "openDeleteIncomeSourceModal d pg =
     (if \<not> truthy (currentIncomeSource pg) then (pg, [])
      else (pg, [HideModal ''incomeSourceDetailModal'',
                 SetText ''delete-source-name'' (js_get (currentIncomeSource pg) ''name''),
                 ShowModal ''deleteIncomeSourceModal'']))"

definition confirmDeleteIncomeSource :: "dom \<Rightarrow> page \<Rightarrow> page \<times> effect list" where
  "confirmDeleteIncomeSource d pg =
     (if \<not> truthy (currentIncomeSource pg) then (pg, [])
      else (pg, [Fetch (post_bare pg
                   (''/api/income-source/'' @ to_string (js_get (currentIncomeSource pg) ''id'') @ ''/delete/''))]))"

definition confirmDeleteIncomeSource_settled :: "dom \<Rightarrow> page \<Rightarrow> jsval fetch_result \<Rightarrow> page \<times> effect list" where
  "confirmDeleteIncomeSource_settled d pg r =
     promise_chain
       (\<lambda>v. if_success pg v
          (showToast d (js_or (js_get v ''message'') (JStr ''Income source deleted'')) ''success''
           @ [HideModal ''deleteIncomeSourceModal'', ReloadAfter 500])
          (showToast d (js_or (js_get v ''error'') (JStr ''Error deleting income source'')) ''error''))
       (ConsoleError # showToast d (JStr ''An error occurred'') ''error'')
       pg r"

section \<open>Transactions page\<close>

text \<open>
  The script \<^verbatim>\<open>transactions.js\<close>, of which the sources hold two versions. They share the detail view,
  the edit and delete modals and the synchronous part of every save; on success one
  refreshes the listing in place (\<open>_ajax\<close>), the other reloads the page (\<open>_reload\<close>).
\<close>

text \<open>\<^verbatim>\<open>document.getElementById(id)?.value || ''\<close>.\<close>

definition opt_value :: "dom \<Rightarrow> string \<Rightarrow> string" where
  "opt_value d i = (if present d i then value_of d i else [])"

definition loadTransactions :: "dom \<Rightarrow> page \<Rightarrow> page \<times> effect list" where
  "loadTransactions d pg =
     (pg, [Fetch \<lparr>req_url = ''/transactions/'',
                  req_query = [(''search'', opt_value d ''searchInput''),
                               (''type'', opt_value d ''typeFilter''),
                               (''status'', opt_value d ''statusFilter''),
                               (''page'', to_string (currentPage pg)),
                               (''sort'', currentSort pg),
                               (''ajax'', ''1'')],
                  req_method = ''GET'',
                  req_headers = [(''X-Requested-With'', ''XMLHttpRequest'')],
                  req_body = None\<rparr>])"

text \<open>
  The listing response, as far as the script's variables depend on it: the number of
  pages, an integer, which \<^verbatim>\<open>updatePagination\<close> compares with 1; the page it stores;
  and whether the rows render to the end (\<^verbatim>\<open>createTransactionRow\<close> formats amounts and
  dates and dereferences the status).
\<close>

record listing =
  total_pages :: int
  page_number :: jsval
  rows_render :: bool

text \<open>
  \<^verbatim>\<open>updateTransactionsTable(data)\<close>, which ends in \<^verbatim>\<open>updatePagination(data)\<close>:
  \<^verbatim>\<open>if (data.total_pages <= 1) { ...; return; } ...; currentPage = data.page;\<close>
\<close>

definition updateTransactionsTable :: "dom \<Rightarrow> page \<Rightarrow> listing \<Rightarrow> step" where
  "updateTransactionsTable d pg l =
     (if \<not> rows_render l then (pg, [], Thrown)
      else if total_pages l \<le> 1 then (pg, [RenderTable], Done)
      else (pg\<lparr>currentPage := page_number l\<rparr>, [RenderTable], Done))"

definition loadTransactions_settled ::
  "dom \<Rightarrow> page \<Rightarrow> listing fetch_result \<Rightarrow> page \<times> effect list" where
  "loadTransactions_settled d pg r =
     promise_chain (updateTransactionsTable d pg) [ConsoleError] pg r"

definition viewTransaction :: "string \<Rightarrow> string \<Rightarrow> dom \<Rightarrow> page \<Rightarrow> page \<times> effect list" where
  "viewTransaction kind ident d pg =
     (pg, [Fetch (get_plain (''/api/transaction/'' @ kind @ ''/'' @ ident @ ''/''))])"

definition showDetailModal :: "dom \<Rightarrow> jsval \<Rightarrow> effect list \<times> completion" where
  "showDetailModal d transaction = show_detail d ''detailModal'' transaction"

definition viewTransaction_settled ::
  "dom \<Rightarrow> page \<Rightarrow> jsval fetch_result \<Rightarrow> page \<times> effect list" where
  "viewTransaction_settled d pg r =
     promise_chain
       (view_then (\<lambda>v. pg\<lparr>currentTransaction := v\<rparr>) (showDetailModal d)
          (showToast_guarded d (JStr ''Error loading transaction'') ''error'') pg)
       (ConsoleError # showToast_guarded d (JStr ''Error loading transaction'') ''error'')
       pg r"

text \<open>The fields that the edit modals of both transaction kinds are filled with.\<close>

definition fill_income_form :: "jsval \<Rightarrow> effect list" where
  "fill_income_form t =
     [SetValue ''income-id'' (js_get t ''id''),
      SetValue ''income-source'' (js_get t ''source_id''),
      SetValue ''income-amount'' (js_get t ''amount''),
      SetValue ''income-currency'' (js_get t ''currency''),
      SetValue ''income-date'' (js_get t ''date''),
      SetValue ''income-description'' (js_or (js_get t ''description'') (JStr [])),
      SetValue ''income-status'' (js_get t ''status''),
      SetText ''incomeModalLabel'' (JStr ''Edit Income'')]"

definition fill_expense_form :: "jsval \<Rightarrow> effect list" where
  "fill_expense_form t =
     [SetValue ''expense-id'' (js_get t ''id''),
      SetValue ''expense-category'' (js_get t ''category_id''),
      SetValue ''expense-amount'' (js_get t ''amount''),
      SetValue ''expense-currency'' (js_get t ''currency''),
      SetValue ''expense-date'' (js_get t ''date''),
      SetValue ''expense-description'' (js_or (js_get t ''description'') (JStr [])),
      SetValue ''expense-status'' (js_get t ''status''),
      SetValue ''expense-budget'' (js_or (js_get t ''budget_id'') (JStr [])),
      SetText ''expenseModalLabel'' (JStr ''Edit Expense'')]"

definition openEditModal :: "dom \<Rightarrow> page \<Rightarrow> page \<times> effect list" where
  "openEditModal d pg =
     (if \<not> truthy (currentTransaction pg) then (pg, [])
      else if js_get (currentTransaction pg) ''type'' = JStr ''income''
      then (pg, HideModal ''detailModal'' # fill_income_form (currentTransaction pg)
                  @ [ShowModal ''incomeModal''])
      else (pg, HideModal ''detailModal'' # fill_expense_form (currentTransaction pg)
                  @ [ShowModal ''expenseModal'']))"

definition income_form_data :: "dom \<Rightarrow> (string \<times> jsval) list" where
  "income_form_data d =
     [(''source_id'', JStr (value_of d ''income-source'')),
      (''amount'', JStr (value_of d ''income-amount'')),
      (''currency'', JStr (value_of d ''income-currency'')),
      (''transaction_date'', JStr (value_of d ''income-date'')),
      (''description'', JStr (value_of d ''income-description'')),
      (''status'', JStr (value_of d ''income-status''))]"

definition expense_form_data :: "dom \<Rightarrow> jsval \<Rightarrow> (string \<times> jsval) list" where
  "expense_form_data d budget =
     [(''category_id'', JStr (value_of d ''expense-category'')),
      (''amount'', JStr (value_of d ''expense-amount'')),
      (''currency'', JStr (value_of d ''expense-currency'')),
      (''transaction_date'', JStr (value_of d ''expense-date'')),
      (''description'', JStr (value_of d ''expense-description'')),
      (''status'', JStr (value_of d ''expense-status'')),
      (''budget_id'', js_or budget JNull)]"

text \<open>\<^verbatim>\<open>id ? `/api/transaction/income/${id}/update/` : '/api/income/create/'\<close>.\<close>

definition transaction_save_url :: "string \<Rightarrow> string \<Rightarrow> string" where
  "transaction_save_url kind ident =
     (if ident \<noteq> [] then ''/api/transaction/'' @ kind @ ''/'' @ ident @ ''/update/''
      else ''/api/'' @ kind @ ''/create/'')"

definition saveIncome :: "dom \<Rightarrow> page \<Rightarrow> page \<times> effect list" where
  "saveIncome d pg =
     (pg, [Fetch (post_json pg (transaction_save_url ''income'' (value_of d ''income-id''))
                    (JObj (income_form_data d)))])"

definition saveExpense :: "dom \<Rightarrow> page \<Rightarrow> page \<times> effect list" where
  "saveExpense d pg =
     (pg, [Fetch (post_json pg (transaction_save_url ''expense'' (value_of d ''expense-id''))
                    (JObj (expense_form_data d (JStr (value_of d ''expense-budget'')))))])"

text \<open>\<^verbatim>\<open>`/api/transaction/${current.type}/${current.id}/<action>/`\<close>.\<close>

definition transaction_action_url :: "jsval \<Rightarrow> string \<Rightarrow> string" where
  "transaction_action_url t action =
     ''/api/transaction/'' @ to_string (js_get t ''type'') @ ''/''
       @ to_string (js_get t ''id'') @ ''/'' @ action @ ''/''"

definition markComplete :: "dom \<Rightarrow> page \<Rightarrow> page \<times> effect list" where
  "markComplete d pg =
     (if \<not> truthy (currentTransaction pg) then (pg, [])
      else (pg, [Fetch (post_bare pg
                   (transaction_action_url (currentTransaction pg) ''complete''))]))"

definition openDeleteModal :: "dom \<Rightarrow> page \<Rightarrow> page \<times> effect list" where
  "openDeleteModal d pg =
     (if \<not> truthy (currentTransaction pg) then (pg, [])
      else (pg, [HideModal ''detailModal'',
                 SetText ''delete-transaction-name'' (js_get (currentTransaction pg) ''name''),
                 ShowModal ''deleteModal'']))"

definition confirmDelete :: "dom \<Rightarrow> page \<Rightarrow> page \<times> effect list" where
  "confirmDelete d pg =
     (if \<not> truthy (currentTransaction pg) then (pg, [])
      else (pg, [Fetch (post_bare pg
                   (transaction_action_url (currentTransaction pg) ''delete''))]))"

subsection \<open>Settling, in the version that refreshes the listing\<close>

definition saveIncome_ajax_settled :: "dom \<Rightarrow> page \<Rightarrow> jsval fetch_result \<Rightarrow> page \<times> effect list" where
  "saveIncome_ajax_settled d pg r =
     promise_chain
       (\<lambda>v. if_success pg v
          (showToast_guarded d (js_get v ''message'') ''success''
           @ HideModal ''incomeModal'' # snd (loadTransactions d pg))
          (showToast_guarded d (js_get v ''error'') ''error''))
       (ConsoleError # showToast_guarded d (JStr ''An error occurred'') ''error'')
       pg r"

definition saveExpense_ajax_settled :: "dom \<Rightarrow> page \<Rightarrow> jsval fetch_result \<Rightarrow> page \<times> effect list" where
  "saveExpense_ajax_settled d pg r =
     promise_chain
       (\<lambda>v. if_success pg v
          (showToast_guarded d (js_get v ''message'') ''success''
           @ HideModal ''expenseModal'' # snd (loadTransactions d pg))
          (showToast_guarded d (js_get v ''error'') ''error''))
       (ConsoleError # showToast_guarded d (JStr ''An error occurred'') ''error'')
       pg r"

definition markComplete_ajax_settled :: "dom \<Rightarrow> page \<Rightarrow> jsval fetch_result \<Rightarrow> page \<times> effect list" where
  "markComplete_ajax_settled d pg r =
     promise_chain
       (\<lambda>v. if_success pg v
          (showToast_guarded d (js_get v ''message'') ''success''
           @ HideModal ''detailModal'' # snd (loadTransactions d pg))
          (showToast_guarded d (js_get v ''error'') ''error''))
       (ConsoleError # showToast_guarded d (JStr ''An error occurred'') ''error'')
       pg r"

definition confirmDelete_ajax_settled :: "dom \<Rightarrow> page \<Rightarrow> jsval fetch_result \<Rightarrow> page \<times> effect list" where
  "confirmDelete_ajax_settled d pg r =
     promise_chain
       (\<lambda>v. if_success pg v
          (showToast_guarded d (js_get v ''message'') ''success''
           @ HideModal ''deleteModal'' # snd (loadTransactions d pg))
          (showToast_guarded d (js_get v ''error'') ''error''))
       (ConsoleError # showToast_guarded d (JStr ''An error occurred'') ''error'')
       pg r"

subsection \<open>Settling, in the version that reloads the page\<close>

definition saveIncome_reload_settled :: "dom \<Rightarrow> page \<Rightarrow> jsval fetch_result \<Rightarrow> page \<times> effect list" where
  "saveIncome_reload_settled d pg r =
     promise_chain
       (\<lambda>v. if_success pg v
          (showToast_guarded d (js_get v ''message'') ''success''
           @ [ReloadAfter 1000])
          (showToast_guarded d (js_get v ''error'') ''error''))
       (ConsoleError # showToast_guarded d (JStr ''An error occurred'') ''error'')
       pg r"

definition saveExpense_reload_settled :: "dom \<Rightarrow> page \<Rightarrow> jsval fetch_result \<Rightarrow> page \<times> effect list" where
  "saveExpense_reload_settled d pg r =
     promise_chain
       (\<lambda>v. if_success pg v
          (showToast_guarded d (js_get v ''message'') ''success''
           @ [ReloadAfter 1000])
          (showToast_guarded d (js_get v ''error'') ''error''))
       (ConsoleError # showToast_guarded d (JStr ''An error occurred'') ''error'')
       pg r"

definition markComplete_reload_settled :: "dom \<Rightarrow> page \<Rightarrow> jsval fetch_result \<Rightarrow> page \<times> effect list" where
  "markComplete_reload_settled d pg r =
     promise_chain
       (\<lambda>v. if_success pg v
          (showToast_guarded d (js_get v ''message'') ''success''
           @ [ReloadAfter 1000])
          (showToast_guarded d (js_get v ''error'') ''error''))
       (ConsoleError # showToast_guarded d (JStr ''An error occurred'') ''error'')
       pg r"

definition confirmDelete_reload_settled :: "dom \<Rightarrow> page \<Rightarrow> jsval fetch_result \<Rightarrow> page \<times> effect list" where
  "confirmDelete_reload_settled d pg r =
     promise_chain
       (\<lambda>v. if_success pg v
          (showToast_guarded d (js_get v ''message'') ''success''
           @ [ReloadAfter 1000])
          (showToast_guarded d (js_get v ''error'') ''error''))
       (ConsoleError # showToast_guarded d (JStr ''An error occurred'') ''error'')
       pg r"

subsection \<open>Search box and filters\<close>

text \<open>\<^verbatim>\<open>URLSearchParams.delete(name)\<close> and \<^verbatim>\<open>URLSearchParams.set(name, value)\<close>.\<close>

definition params_delete :: "string \<Rightarrow> (string \<times> string) list \<Rightarrow> (string \<times> string) list" where
  "params_delete k ps = filter (\<lambda>p. fst p \<noteq> k) ps"

fun params_set :: "string \<Rightarrow> string \<Rightarrow> (string \<times> string) list \<Rightarrow> (string \<times> string) list" where
  "params_set k v [] = [(k, v)]"
| "params_set k v (p # ps) =
     (if fst p = k then (k, v) # params_delete k ps else p # params_set k v ps)"

text \<open>\<^verbatim>\<open>if (v) params.set(k, v); else params.delete(k);\<close>\<close>

definition params_put :: "string \<Rightarrow> string \<Rightarrow> (string \<times> string) list \<Rightarrow> (string \<times> string) list" where
  "params_put k v ps = (if v \<noteq> [] then params_set k v ps else params_delete k ps)"

text \<open>The reloading version re-queries by navigating to the filtered address.\<close>

definition applyFilters :: "dom \<Rightarrow> page \<Rightarrow> page \<times> effect list" where
  "applyFilters d pg =
     (pg, [Navigate (location_pathname d)
             (params_delete ''page''
               (params_put ''status'' (opt_value d ''statusFilter'')
                 (params_put ''category'' (opt_value d ''categoryFilter'')
                   (params_put ''search'' (opt_value d ''searchInput'')
                     (location_search d)))))])"

text \<open>
  The callback that the search box schedules in the version that refreshes the listing:
  \<^verbatim>\<open>() => { currentPage = 1; loadTransactions(); }\<close>.
\<close>

definition search_timeout :: "dom \<Rightarrow> page \<Rightarrow> page \<times> effect list" where
  "search_timeout d pg = loadTransactions d (pg\<lparr>currentPage := JNum ''1''\<rparr>)"

text \<open>
  \<^verbatim>\<open>
  searchInput.addEventListener('input', function() {
      clearTimeout(searchTimeout);
      searchTimeout = setTimeout(callback, delay);
  });
  \<close>
  Time is a count of milliseconds. \<open>searchTimeout\<close> is \<open>Armed due\<close> while a timeout is
  pending that runs at \<open>due\<close>. \<open>search_inputs\<close> handles the input events of the search
  box in order, each with its time and the text the box then holds, and then lets the
  time pass: a timeout that is due by the time of an event has run before it, one that
  is not is cancelled, and the last one runs at the end.
\<close>

datatype timer = Idle | Armed nat

definition typed :: "dom \<Rightarrow> string \<Rightarrow> dom" where
  "typed d txt = d\<lparr>value_of := (value_of d)(''searchInput'' := txt)\<rparr>"

fun search_inputs ::
  "nat \<Rightarrow> (dom \<Rightarrow> page \<Rightarrow> page \<times> effect list) \<Rightarrow> dom \<Rightarrow> page \<Rightarrow> timer
     \<Rightarrow> (nat \<times> string) list \<Rightarrow> page \<times> effect list" where
  "search_inputs delay callback d pg Idle [] = (pg, [])"
| "search_inputs delay callback d pg (Armed due) [] = callback d pg"
| "search_inputs delay callback d pg Idle ((t, txt) # evs) =
     search_inputs delay callback (typed d txt) pg (Armed (t + delay)) evs"
| "search_inputs delay callback d pg (Armed due) ((t, txt) # evs) =
     (if due \<le> t
      then (case callback d pg of
              (pg', es) \<Rightarrow>
                (case search_inputs delay callback (typed d txt) pg' (Armed (t + delay)) evs of
                   (pg'', es') \<Rightarrow> (pg'', es @ es')))
      else search_inputs delay callback (typed d txt) pg (Armed (t + delay)) evs)"

definition search_inputs_ajax ::
  "dom \<Rightarrow> page \<Rightarrow> timer \<Rightarrow> (nat \<times> string) list \<Rightarrow> page \<times> effect list" where
  "search_inputs_ajax = search_inputs 400 search_timeout"

definition search_inputs_reload ::
  "dom \<Rightarrow> page \<Rightarrow> timer \<Rightarrow> (nat \<times> string) list \<Rightarrow> page \<times> effect list" where
  "search_inputs_reload = search_inputs 500 applyFilters"

text \<open>Input events in order of time, each less than \<open>delay\<close> after the one before.\<close>

fun burst :: "nat \<Rightarrow> (nat \<times> string) list \<Rightarrow> bool" where
  "burst delay (e # f # evs) = (fst e \<le> fst f \<and> fst f < fst e + delay \<and> burst delay (f # evs))"
| "burst delay evs = True"

section \<open>Profile page\<close>

text \<open>The script \<^verbatim>\<open>profile.js\<close>.\<close>

definition saveProfile :: "dom \<Rightarrow> page \<Rightarrow> page \<times> effect list" where
  "saveProfile d pg =
     (pg, [Fetch (post_json pg ''/api/profile/update/''
             (JObj [(''first_name'', JStr (value_of d ''first-name'')),
                    (''last_name'', JStr (value_of d ''last-name'')),
                    (''email'', JStr (value_of d ''email'')),
                    (''primary_currency'', JStr (value_of d ''primary-currency'')),
                    (''avatar'', JStr (value_of d ''profile-avatar''))]))])"

definition saveProfile_settled :: "dom \<Rightarrow> page \<Rightarrow> jsval fetch_result \<Rightarrow> page \<times> effect list" where
  "saveProfile_settled d pg r =
     promise_chain
       (\<lambda>v. if_success pg v
          (showToast d (js_or (js_get v ''message'') (JStr ''Profile updated successfully'')) ''success''
           @ [ReloadAfter 1000])
          (showToast d (js_or (js_get v ''error'') (JStr ''Error updating profile'')) ''error''))
       (ConsoleError # showToast d (JStr ''An error occurred'') ''error'')
       pg r"

text \<open>The password's \<^verbatim>\<open>.length\<close> is its number of characters.\<close>

definition changePassword :: "dom \<Rightarrow> page \<Rightarrow> page \<times> effect list" where
  "changePassword d pg =
     (let currentPassword = value_of d ''current-password'';
          newPassword = value_of d ''new-password'';
          confirmPassword = value_of d ''confirm-password''
      in if newPassword \<noteq> confirmPassword
         then (pg, showToast d (JStr ''New passwords do not match'') ''error'')
         else if length newPassword < 8
         then (pg, showToast d (JStr ''Password must be at least 8 characters'') ''error'')
         else (pg, [Fetch (post_json pg ''/api/profile/change-password/''
                      (JObj [(''current_password'', JStr currentPassword),
                             (''new_password'', JStr newPassword)]))]))"

definition changePassword_settled :: "dom \<Rightarrow> page \<Rightarrow> jsval fetch_result \<Rightarrow> page \<times> effect list" where
  "changePassword_settled d pg r =
     promise_chain
       (\<lambda>v. if_success pg v
          (showToast d (js_or (js_get v ''message'') (JStr ''Password changed successfully'')) ''success''
           @ [HideModal ''changePasswordModal'', ResetForm ''passwordForm''])
          (showToast d (js_or (js_get v ''error'') (JStr ''Error changing password'')) ''error''))
       (ConsoleError # showToast d (JStr ''An error occurred'') ''error'')
       pg r"

section \<open>Dashboard\<close>

text \<open>The script \<^verbatim>\<open>dashboard.js\<close>, in its current version.\<close>

text \<open>\<^verbatim>\<open>document.getElementById(id)?.value\<close>, before any \<^verbatim>\<open>||\<close>.\<close>

definition opt_field :: "dom \<Rightarrow> string \<Rightarrow> jsval" where
  "opt_field d i = (if present d i then JStr (value_of d i) else JUndefined)"

text \<open>The fields added to a saved transaction when its "recurring" box is checked.\<close>

definition recurring_fields :: "dom \<Rightarrow> string \<Rightarrow> (string \<times> jsval) list" where
  "recurring_fields d kind =
     (if present d (kind @ ''-is-recurring'') \<and> checked d (kind @ ''-is-recurring'')
      then [(''is_recurring'', JBool True),
            (''recurrence_pattern'',
               js_or (opt_field d (kind @ ''-recurrence-pattern'')) (JStr ''monthly'')),
            (''recurrence_end_date'', js_or (opt_field d (kind @ ''-recurrence-end'')) JNull)]
      else [])"

definition saveIncome_dashboard :: "dom \<Rightarrow> page \<Rightarrow> page \<times> effect list" where
  "saveIncome_dashboard d pg =
     (pg, [Fetch (post_json pg (transaction_save_url ''income'' (value_of d ''income-id''))
                    (JObj (income_form_data d @ recurring_fields d ''income'')))])"

definition saveExpense_dashboard :: "dom \<Rightarrow> page \<Rightarrow> page \<times> effect list" where
  "saveExpense_dashboard d pg =
     (pg, [Fetch (post_json pg (transaction_save_url ''expense'' (value_of d ''expense-id''))
                    (JObj (expense_form_data d (opt_field d ''expense-budget'')
                           @ recurring_fields d ''expense'')))])"

definition saveIncome_dashboard_settled :: "dom \<Rightarrow> page \<Rightarrow> jsval fetch_result \<Rightarrow> page \<times> effect list" where
  "saveIncome_dashboard_settled d pg r =
     promise_chain
       (\<lambda>v. if_success pg v
          (showToast d (js_or (js_get v ''message'') (JStr ''Income saved successfully'')) ''success''
           @ [HideModal ''incomeModal'', ReloadAfter 500])
          (showToast d (js_or (js_get v ''error'') (JStr ''Error saving income'')) ''error''))
       (ConsoleError # showToast d (JStr ''An error occurred'') ''error'')
       pg r"

definition saveExpense_dashboard_settled :: "dom \<Rightarrow> page \<Rightarrow> jsval fetch_result \<Rightarrow> page \<times> effect list" where
  "saveExpense_dashboard_settled d pg r =
     promise_chain
       (\<lambda>v. if_success pg v
          (showToast d (js_or (js_get v ''message'') (JStr ''Expense saved successfully'')) ''success''
           @ [HideModal ''expenseModal'', ReloadAfter 500])
          (showToast d (js_or (js_get v ''error'') (JStr ''Error saving expense'')) ''error''))
       (ConsoleError # showToast d (JStr ''An error occurred'') ''error'')
       pg r"

definition viewDashboardTransaction ::
  "string \<Rightarrow> string \<Rightarrow> dom \<Rightarrow> page \<Rightarrow> page \<times> effect list" where
  "viewDashboardTransaction kind ident d pg =
     (pg, [Fetch (get_plain (''/api/transaction/'' @ kind @ ''/'' @ ident @ ''/''))])"

definition showTransactionDetailModal :: "dom \<Rightarrow> jsval \<Rightarrow> effect list \<times> completion" where
  "showTransactionDetailModal d transaction =
     show_detail d ''transactionDetailModal'' transaction"

definition viewDashboardTransaction_settled ::
  "dom \<Rightarrow> page \<Rightarrow> jsval fetch_result \<Rightarrow> page \<times> effect list" where
  "viewDashboardTransaction_settled d pg r =
     promise_chain
       (view_then (\<lambda>v. pg\<lparr>currentDashboardTransaction := v\<rparr>) (showTransactionDetailModal d)
          (showToast d (JStr ''Error loading transaction'') ''error'') pg)
       (ConsoleError # showToast d (JStr ''Error loading transaction'') ''error'')
       pg r"

definition openEditTransactionModal :: "dom \<Rightarrow> page \<Rightarrow> page \<times> effect list" where
  "openEditTransactionModal d pg =
     (if \<not> truthy (currentDashboardTransaction pg) then (pg, [])
      else if js_get (currentDashboardTransaction pg) ''type'' = JStr ''income''
      then (pg, HideModal ''transactionDetailModal''
                  # fill_income_form (currentDashboardTransaction pg)
                  @ [ToggleRecurringFields ''income'' False, ShowModal ''incomeModal''])
      else (pg, HideModal ''transactionDetailModal''
                  # fill_expense_form (currentDashboardTransaction pg)
                  @ [ToggleRecurringFields ''expense'' False, ShowModal ''expenseModal'']))"

definition markTransactionComplete :: "dom \<Rightarrow> page \<Rightarrow> page \<times> effect list" where
  "markTransactionComplete d pg =
     (if \<not> truthy (currentDashboardTransaction pg) then (pg, [])
      else (pg, [Fetch (post_bare pg
                   (transaction_action_url (currentDashboardTransaction pg) ''complete''))]))"

definition markTransactionComplete_settled :: "dom \<Rightarrow> page \<Rightarrow> jsval fetch_result \<Rightarrow> page \<times> effect list" where
  "markTransactionComplete_settled d pg r =
     promise_chain
       (\<lambda>v. if_success pg v
          (showToast d (js_or (js_get v ''message'') (JStr ''Transaction marked as complete'')) ''success''
           @ [HideModal ''transactionDetailModal'', ReloadAfter 500])
          (showToast d (js_or (js_get v ''error'') (JStr ''Error updating transaction'')) ''error''))
       (ConsoleError # showToast d (JStr ''An error occurred'') ''error'')
       pg r"

definition openDeleteTransactionModal :: "dom \<Rightarrow> page \<Rightarrow> page \<times> effect list" where
  "openDeleteTransactionModal d pg =
     (if \<not> truthy (currentDashboardTransaction pg) then (pg, [])
      else (pg, [HideModal ''transactionDetailModal'',
                 SetText ''delete-transaction-name''
                   (js_get (currentDashboardTransaction pg) ''name''),
                 ShowModal ''deleteTransactionModal'']))"

definition confirmDeleteTransaction :: "dom \<Rightarrow> page \<Rightarrow> page \<times> effect list" where
  "confirmDeleteTransaction d pg =
     (if \<not> truthy (currentDashboardTransaction pg) then (pg, [])
      else (pg, [Fetch (post_bare pg
                   (transaction_action_url (currentDashboardTransaction pg) ''delete''))]))"

definition confirmDeleteTransaction_settled :: "dom \<Rightarrow> page \<Rightarrow> jsval fetch_result \<Rightarrow> page \<times> effect list" where
  "confirmDeleteTransaction_settled d pg r =
     promise_chain
       (\<lambda>v. if_success pg v
          (showToast d (js_or (js_get v ''message'') (JStr ''Transaction deleted'')) ''success''
           @ [HideModal ''deleteTransactionModal'', ReloadAfter 500])
          (showToast d (js_or (js_get v ''error'') (JStr ''Error deleting transaction'')) ''error''))
       (ConsoleError # showToast d (JStr ''An error occurred'') ''error'')
       pg r"

subsection \<open>The older dashboard script\<close>

text \<open>
  The sources keep an older copy of the dashboard script. It only creates
  transactions, reloads at once on success and reports through \<^verbatim>\<open>alert\<close>.
\<close>

definition saveIncome_legacy :: "dom \<Rightarrow> page \<Rightarrow> page \<times> effect list" where
  "saveIncome_legacy d pg =
     (pg, [Fetch (post_json pg ''/api/income/create/'' (JObj (income_form_data d)))])"

definition saveExpense_legacy :: "dom \<Rightarrow> page \<Rightarrow> page \<times> effect list" where
  "saveExpense_legacy d pg =
     (pg, [Fetch (post_json pg ''/api/expense/create/''
                    (JObj (expense_form_data d (JStr (value_of d ''expense-budget'')))))])"

definition legacy_settled :: "dom \<Rightarrow> page \<Rightarrow> jsval fetch_result \<Rightarrow> page \<times> effect list" where
  "legacy_settled d pg r =
     promise_chain
       (\<lambda>v. if_success pg v
          [ReloadNow]
          [Alert (''Error: '' @ to_string (js_get v ''error''))])
       [ConsoleError, Alert ''An error occurred'']
       pg r"

section \<open>The operations of all pages\<close>

text \<open>
  One name for every operation of the page scripts that a user action starts, apart from
  the refresh of the listing (\<open>loadTransactions\<close>), whose response has its own type.
  \<open>start\<close> is the synchronous part and \<open>settle\<close> the handling of the response; an
  operation that only moves between modals has nothing to settle.
\<close>

datatype operation =
    ViewBudget jsval
  | OpenEditBudgetModal
  | SaveBudget
  | ToggleBudgetStatus
  | OpenDeleteBudgetModal
  | ConfirmDeleteBudget
  | ViewCategory jsval
  | OpenEditCategoryModal
  | SaveCategory
  | OpenDeleteCategoryModal
  | ConfirmDeleteCategory
  | ViewIncomeSource jsval
  | OpenEditIncomeSourceModal
  | SaveIncomeSource
  | OpenDeleteIncomeSourceModal
  | ConfirmDeleteIncomeSource
  | ViewTransaction string string
  | OpenEditModal
  | OpenDeleteModal
  | SaveIncomeAjax
  | SaveExpenseAjax
  | MarkCompleteAjax
  | ConfirmDeleteAjax
  | SaveIncomeReload
  | SaveExpenseReload
  | MarkCompleteReload
  | ConfirmDeleteReload
  | SaveProfile
  | ChangePassword
  | SaveIncomeDashboard
  | SaveExpenseDashboard
  | ViewDashboardTransaction string string
  | OpenEditTransactionModal
  | MarkTransactionComplete
  | OpenDeleteTransactionModal
  | ConfirmDeleteTransaction
  | SaveIncomeLegacy
  | SaveExpenseLegacy

fun start :: "operation \<Rightarrow> dom \<Rightarrow> page \<Rightarrow> page \<times> effect list" where
  "start (ViewBudget a) = viewBudget a"
| "start OpenEditBudgetModal = openEditBudgetModal"
| "start SaveBudget = saveBudget"
| "start ToggleBudgetStatus = toggleBudgetStatus"
| "start OpenDeleteBudgetModal = openDeleteBudgetModal"
| "start ConfirmDeleteBudget = confirmDeleteBudget"
| "start (ViewCategory a) = viewCategory a"
| "start OpenEditCategoryModal = openEditCategoryModal"
| "start SaveCategory = saveCategory"
| "start OpenDeleteCategoryModal = openDeleteCategoryModal"
| "start ConfirmDeleteCategory = confirmDeleteCategory"
| "start (ViewIncomeSource a) = viewIncomeSource a"
| "start OpenEditIncomeSourceModal = openEditIncomeSourceModal"
| "start SaveIncomeSource = saveIncomeSource"
| "start OpenDeleteIncomeSourceModal = openDeleteIncomeSourceModal"
| "start ConfirmDeleteIncomeSource = confirmDeleteIncomeSource"
| "start (ViewTransaction a b) = viewTransaction a b"
| "start OpenEditModal = openEditModal"
| "start OpenDeleteModal = openDeleteModal"
| "start SaveIncomeAjax = saveIncome"
| "start SaveExpenseAjax = saveExpense"
| "start MarkCompleteAjax = markComplete"
| "start ConfirmDeleteAjax = confirmDelete"
| "start SaveIncomeReload = saveIncome"
| "start SaveExpenseReload = saveExpense"
| "start MarkCompleteReload = markComplete"
| "start ConfirmDeleteReload = confirmDelete"
| "start SaveProfile = saveProfile"
| "start ChangePassword = changePassword"
| "start SaveIncomeDashboard = saveIncome_dashboard"
| "start SaveExpenseDashboard = saveExpense_dashboard"
| "start (ViewDashboardTransaction a b) = viewDashboardTransaction a b"
| "start OpenEditTransactionModal = openEditTransactionModal"
| "start MarkTransactionComplete = markTransactionComplete"
| "start OpenDeleteTransactionModal = openDeleteTransactionModal"
| "start ConfirmDeleteTransaction = confirmDeleteTransaction"
| "start SaveIncomeLegacy = saveIncome_legacy"
| "start SaveExpenseLegacy = saveExpense_legacy"

fun settle ::
  "operation \<Rightarrow> dom \<Rightarrow> page \<Rightarrow> jsval fetch_result \<Rightarrow> page \<times> effect list" where
  "settle (ViewBudget a) = viewBudget_settled"
| "settle SaveBudget = saveBudget_settled"
| "settle ToggleBudgetStatus = toggleBudgetStatus_settled"
| "settle ConfirmDeleteBudget = confirmDeleteBudget_settled"
| "settle (ViewCategory a) = viewCategory_settled"
| "settle SaveCategory = saveCategory_settled"
| "settle ConfirmDeleteCategory = confirmDeleteCategory_settled"
| "settle (ViewIncomeSource a) = viewIncomeSource_settled"
| "settle SaveIncomeSource = saveIncomeSource_settled"
| "settle ConfirmDeleteIncomeSource = confirmDeleteIncomeSource_settled"
| "settle (ViewTransaction a b) = viewTransaction_settled"
| "settle SaveIncomeAjax = saveIncome_ajax_settled"
| "settle SaveExpenseAjax = saveExpense_ajax_settled"
| "settle MarkCompleteAjax = markComplete_ajax_settled"
| "settle ConfirmDeleteAjax = confirmDelete_ajax_settled"
| "settle SaveIncomeReload = saveIncome_reload_settled"
| "settle SaveExpenseReload = saveExpense_reload_settled"
| "settle MarkCompleteReload = markComplete_reload_settled"
| "settle ConfirmDeleteReload = confirmDelete_reload_settled"
| "settle SaveProfile = saveProfile_settled"
| "settle ChangePassword = changePassword_settled"
| "settle SaveIncomeDashboard = saveIncome_dashboard_settled"
| "settle SaveExpenseDashboard = saveExpense_dashboard_settled"
| "settle (ViewDashboardTransaction a b) = viewDashboardTransaction_settled"
| "settle MarkTransactionComplete = markTransactionComplete_settled"
| "settle ConfirmDeleteTransaction = confirmDeleteTransaction_settled"
| "settle SaveIncomeLegacy = legacy_settled"
| "settle SaveExpenseLegacy = legacy_settled"
| "settle other = (\<lambda>d pg r. (pg, []))"

text \<open>Create, update, delete, toggle-status and mark-complete of budgets, categories,
  income sources, incomes and expenses.\<close>

fun entity_mutation :: "operation \<Rightarrow> bool" where
  "entity_mutation SaveBudget = True"
| "entity_mutation ToggleBudgetStatus = True"
| "entity_mutation ConfirmDeleteBudget = True"
| "entity_mutation SaveCategory = True"
| "entity_mutation ConfirmDeleteCategory = True"
| "entity_mutation SaveIncomeSource = True"
| "entity_mutation ConfirmDeleteIncomeSource = True"
| "entity_mutation SaveIncomeAjax = True"
| "entity_mutation SaveExpenseAjax = True"
| "entity_mutation MarkCompleteAjax = True"
| "entity_mutation ConfirmDeleteAjax = True"
| "entity_mutation SaveIncomeReload = True"
| "entity_mutation SaveExpenseReload = True"
| "entity_mutation MarkCompleteReload = True"
| "entity_mutation ConfirmDeleteReload = True"
| "entity_mutation SaveIncomeDashboard = True"
| "entity_mutation SaveExpenseDashboard = True"
| "entity_mutation MarkTransactionComplete = True"
| "entity_mutation ConfirmDeleteTransaction = True"
| "entity_mutation SaveIncomeLegacy = True"
| "entity_mutation SaveExpenseLegacy = True"
| "entity_mutation other = False"

text \<open>The operations of the older dashboard script.\<close>

fun legacy :: "operation \<Rightarrow> bool" where
  "legacy SaveIncomeLegacy = True"
| "legacy SaveExpenseLegacy = True"
| "legacy other = False"

text \<open>The operations of the transactions scripts, whose toast needs its container.\<close>

fun on_transactions_page :: "operation \<Rightarrow> bool" where
  "on_transactions_page (ViewTransaction a b) = True"
| "on_transactions_page OpenEditModal = True"
| "on_transactions_page OpenDeleteModal = True"
| "on_transactions_page SaveIncomeAjax = True"
| "on_transactions_page SaveExpenseAjax = True"
| "on_transactions_page MarkCompleteAjax = True"
| "on_transactions_page ConfirmDeleteAjax = True"
| "on_transactions_page SaveIncomeReload = True"
| "on_transactions_page SaveExpenseReload = True"
| "on_transactions_page MarkCompleteReload = True"
| "on_transactions_page ConfirmDeleteReload = True"
| "on_transactions_page other = False"

text \<open>The detail-view fetches.\<close>

fun detail_view :: "operation \<Rightarrow> bool" where
  "detail_view (ViewBudget a) = True"
| "detail_view (ViewCategory a) = True"
| "detail_view (ViewIncomeSource a) = True"
| "detail_view (ViewTransaction a b) = True"
| "detail_view (ViewDashboardTransaction a b) = True"
| "detail_view other = False"

text \<open>The two operations of the profile page.\<close>

fun profile_mutation :: "operation \<Rightarrow> bool" where
  "profile_mutation SaveProfile = True"
| "profile_mutation ChangePassword = True"
| "profile_mutation other = False"

text \<open>The "current entity" variable that an operation reads or writes, if it has one.\<close>

fun current_entity :: "operation \<Rightarrow> (page \<Rightarrow> jsval) option" where
  "current_entity (ViewBudget a) = Some currentBudget"
| "current_entity OpenEditBudgetModal = Some currentBudget"
| "current_entity ToggleBudgetStatus = Some currentBudget"
| "current_entity OpenDeleteBudgetModal = Some currentBudget"
| "current_entity ConfirmDeleteBudget = Some currentBudget"
| "current_entity (ViewCategory a) = Some currentCategory"
| "current_entity OpenEditCategoryModal = Some currentCategory"
| "current_entity OpenDeleteCategoryModal = Some currentCategory"
| "current_entity ConfirmDeleteCategory = Some currentCategory"
| "current_entity (ViewIncomeSource a) = Some currentIncomeSource"
| "current_entity OpenEditIncomeSourceModal = Some currentIncomeSource"
| "current_entity OpenDeleteIncomeSourceModal = Some currentIncomeSource"
| "current_entity ConfirmDeleteIncomeSource = Some currentIncomeSource"
| "current_entity (ViewTransaction a b) = Some currentTransaction"
| "current_entity OpenEditModal = Some currentTransaction"
| "current_entity OpenDeleteModal = Some currentTransaction"
| "current_entity MarkCompleteAjax = Some currentTransaction"
| "current_entity ConfirmDeleteAjax = Some currentTransaction"
| "current_entity MarkCompleteReload = Some currentTransaction"
| "current_entity ConfirmDeleteReload = Some currentTransaction"
| "current_entity (ViewDashboardTransaction a b) = Some currentDashboardTransaction"
| "current_entity OpenEditTransactionModal = Some currentDashboardTransaction"
| "current_entity MarkTransactionComplete = Some currentDashboardTransaction"
| "current_entity OpenDeleteTransactionModal = Some currentDashboardTransaction"
| "current_entity ConfirmDeleteTransaction = Some currentDashboardTransaction"
| "current_entity other = None"


text \<open>A reload of the page, or the request that refreshes the listing in place.\<close>

fun is_refresh :: "effect \<Rightarrow> bool" where
  "is_refresh (ReloadAfter n) = True"
| "is_refresh ReloadNow = True"
| "is_refresh (Navigate path ps) = True"
| "is_refresh (Fetch rq) = (req_method rq = ''GET'' \<and> req_url rq = ''/transactions/'')"
| "is_refresh e = False"

text \<open>The requests among the effects, in order.\<close>

fun requests :: "effect list \<Rightarrow> request list" where
  "requests [] = []"
| "requests (Fetch rq # es) = rq # requests es"
| "requests (e # es) = requests es"

section \<open>Example inputs\<close>

text \<open>The variables as the scripts initialise them, for a given token.\<close>

definition initial_page :: "string \<Rightarrow> page" where
  "initial_page token =
     \<lparr>csrfToken = token, currentBudget = JNull, currentCategory = JNull,
      currentIncomeSource = JNull, currentTransaction = JNull,
      currentDashboardTransaction = JNull, currentPage = JNum ''1'',
      currentSort = ''date_desc''\<rparr>"

text \<open>
  A document in which the budget form is filled in for a category-filter budget with two
  of three category boxes checked, and the income form edits income 7.
\<close>

definition example_dom :: dom where
  "example_dom =
     \<lparr>value_of = (\<lambda>i. if i = ''budget-name'' then ''Food''
                     else if i = ''budget-amount'' then ''250''
                     else if i = ''budget-currency'' then ''USD''
                     else if i = ''budget-start-date'' then ''2025-01-01''
                     else if i = ''budget-recurrence'' then ''monthly''
                     else if i = ''budget-type'' then ''category_filter''
                     else if i = ''income-id'' then ''7''
                     else []),
      present = (\<lambda>i. True),
      checked = (\<lambda>i. False),
      checked_categories = [''3'', ''5''],
      category_boxes = [''3'', ''4'', ''5''],
      location_pathname = ''/transactions/'',
      location_search = [(''page'', ''4''), (''sort_by'', ''date'')],
      render_ok = (\<lambda>e. True),
      date_now = ''1730620800000''\<rparr>"

text \<open>The same document with every control blank.\<close>

definition blank_dom :: dom where
  "blank_dom = example_dom\<lparr>value_of := \<lambda>i. []\<rparr>"

text \<open>A budget as the detail endpoint returns it, and a page on which one is selected.\<close>

definition example_budget :: "string \<Rightarrow> jsval" where
  "example_budget n =
     JObj [(''id'', JNum n), (''name'', JStr ''Food''), (''status'', JStr ''active'')]"

definition selected_page :: "jsval \<Rightarrow> page" where
  "selected_page budget = (initial_page ''t'')\<lparr>currentBudget := budget\<rparr>"

text \<open>The transactions page while its listing shows page 3.\<close>

definition third_page :: page where
  "third_page = (initial_page ''t'')\<lparr>currentPage := JNum ''3''\<rparr>"

section \<open>Properties of the text helpers\<close>

lemma split_on_nonempty: "split_on c s \<noteq> []"
  by (induction s) (auto split: list.splits)

lemma join_with_Cons: "ws \<noteq> [] \<Longrightarrow> join_with sep (w # ws) = w @ sep @ join_with sep ws"
  by (cases ws) simp_all

lemma join_split_on: "join_with [c] (split_on c s) = s"
proof (induction s)
  case Nil
  show ?case by simp
next
  case (Cons x xs)
  obtain w ws where sp: "split_on c xs = w # ws"
    using split_on_nonempty [of c xs] by (cases "split_on c xs") auto
  show ?case
  proof (cases "x = c")
    case True
    with Cons sp show ?thesis by (simp add: join_with_Cons)
  next
    case False
    with Cons sp show ?thesis by (cases ws) auto
  qed
qed

lemma split_on_pieces: "w \<in> set (split_on c s) \<Longrightarrow> c \<notin> set w"
proof (induction s arbitrary: w)
  case Nil
  then show ?case by simp
next
  case (Cons x xs)
  obtain v vs where sp: "split_on c xs = v # vs"
    using split_on_nonempty [of c xs] by (cases "split_on c xs") auto
  with Cons show ?case by (auto split: if_splits)
qed

lemma split_on_free: "c \<notin> set w \<Longrightarrow> split_on c (w @ c # s) = w # split_on c s"
  by (induction w) auto

lemma split_on_single: "c \<notin> set w \<Longrightarrow> split_on c w = [w]"
  by (induction w) auto

lemma split_on_join:
  "ws \<noteq> [] \<Longrightarrow> \<forall>w\<in>set ws. c \<notin> set w \<Longrightarrow> split_on c (join_with [c] ws) = ws"
proof (induction ws)
  case Nil
  then show ?case by simp
next
  case (Cons w ws)
  show ?case
  proof (cases ws)
    case Nil
    with Cons.prems show ?thesis by (simp add: split_on_single)
  next
    case (Cons v vs)
    with Cons.IH Cons.prems have "split_on c (join_with [c] ws) = ws" by simp
    with Cons Cons.prems show ?thesis by (simp add: split_on_free)
  qed
qed

lemma every_string_has_words:
  "\<exists>ws. ws \<noteq> [] \<and> (\<forall>w\<in>set ws. CHR '' '' \<notin> set w) \<and> s = join_with '' '' ws"
  using split_on_nonempty [of "CHR '' ''" s] split_on_pieces [of _ "CHR '' ''" s]
        join_split_on [of "CHR '' ''" s]
  by (intro exI [of _ "split_on (CHR '' '') s"]) auto

text \<open>
  C10. For every string \<open>s\<close> and word count \<open>n\<close>, where \<open>ws\<close> are the words of \<open>s\<close> (the
  space-free pieces that \<open>s\<close> is made of, joined by single spaces): \<open>truncateWords s n\<close>
  is the empty string when \<open>s\<close> is empty (falsy); it is \<open>s\<close> itself when there are at most
  \<open>n\<close> words; otherwise it is the first \<open>n\<close> words joined by single spaces, followed by
  three dots.
\<close>

theorem truncateWords_words:
  assumes "ws \<noteq> []" and "\<forall>w\<in>set ws. CHR '' '' \<notin> set w" and "s = join_with '' '' ws"
  shows "truncateWords s n =
           (if s = [] then []
            else if length ws \<le> n then s
            else join_with '' '' (take n ws) @ ''...'')"
proof -
  have "split_on (CHR '' '') s = ws"
    using assms split_on_join [of ws "CHR '' ''"] by simp
  then show ?thesis by (simp add: truncateWords_def Let_def)
qed

theorem truncateWords_words_witness:
  "truncateWords ''a b  c d'' 2 = ''a b...'' \<and> truncateWords ''a b  c d'' 5 = ''a b  c d''
   \<and> truncateWords '''' 3 = ''''"
  using truncateWords_words [of "[''a'', ''b'', '''', ''c'', ''d'']" "''a b  c d''" 2]
        truncateWords_words [of "[''a'', ''b'', '''', ''c'', ''d'']" "''a b  c d''" 5]
        truncateWords_words [of "['''']" "''''" 3]
  by simp

section \<open>Properties of the page operations\<close>

lemmas start_defs =
  viewBudget_def openEditBudgetModal_def saveBudget_def toggleBudgetStatus_def
  openDeleteBudgetModal_def confirmDeleteBudget_def
  viewCategory_def openEditCategoryModal_def saveCategory_def openDeleteCategoryModal_def
  confirmDeleteCategory_def
  viewIncomeSource_def openEditIncomeSourceModal_def saveIncomeSource_def
  openDeleteIncomeSourceModal_def confirmDeleteIncomeSource_def
  viewTransaction_def openEditModal_def openDeleteModal_def saveIncome_def saveExpense_def
  markComplete_def confirmDelete_def saveProfile_def changePassword_def
  saveIncome_dashboard_def saveExpense_dashboard_def viewDashboardTransaction_def
  openEditTransactionModal_def markTransactionComplete_def openDeleteTransactionModal_def
  confirmDeleteTransaction_def saveIncome_legacy_def saveExpense_legacy_def

lemmas settled_defs =
  viewBudget_settled_def saveBudget_settled_def toggleBudgetStatus_settled_def
  confirmDeleteBudget_settled_def viewCategory_settled_def saveCategory_settled_def
  confirmDeleteCategory_settled_def viewIncomeSource_settled_def saveIncomeSource_settled_def
  confirmDeleteIncomeSource_settled_def viewTransaction_settled_def
  saveIncome_ajax_settled_def saveExpense_ajax_settled_def markComplete_ajax_settled_def
  confirmDelete_ajax_settled_def saveIncome_reload_settled_def saveExpense_reload_settled_def
  markComplete_reload_settled_def confirmDelete_reload_settled_def saveProfile_settled_def
  changePassword_settled_def saveIncome_dashboard_settled_def
  saveExpense_dashboard_settled_def viewDashboardTransaction_settled_def
  markTransactionComplete_settled_def confirmDeleteTransaction_settled_def legacy_settled_def

lemmas helper_defs =
  showToast_def showToast_guarded_def toast_element_def fill_income_form_def
  fill_expense_form_def post_json_def post_bare_def get_plain_def loadTransactions_def

lemmas render_defs =
  show_detail_def showBudgetDetailModal_def showCategoryDetailModal_def
  showIncomeSourceDetailModal_def showDetailModal_def showTransactionDetailModal_def

lemma promise_failed:
  "r = NetworkError \<or> r = ParseError \<Longrightarrow> promise_chain f e pg r = (pg, e)"
  by (auto simp: promise_chain_def)

lemma check_categories_no_fetch:
  "check_categories ids boxes = Some es \<Longrightarrow> Fetch rq \<notin> set es"
  by (auto simp: check_categories_def split: if_splits jsval.splits)

subsection \<open>Guards on the current entity\<close>

lemma guarded_falsy:
  "current_entity op = Some cur \<Longrightarrow> \<not> detail_view op \<Longrightarrow> \<not> truthy (cur pg)
   \<Longrightarrow> start op d pg = (pg, [])"
  by (cases op) (auto simp: start_defs)

text \<open>
  C9. Every operation that acts on the currently selected entity (opening the edit
  modal, toggling the status, opening the delete modal, confirming the delete, marking
  complete) does nothing when the page's current-entity variable is \<^verbatim>\<open>null\<close>: it issues
  no request, has no other effect, and leaves the page variables as they are.
\<close>

theorem guarded_noop:
  assumes "current_entity op = Some cur" and "\<not> detail_view op" and "cur pg = JNull"
  shows "start op d pg = (pg, [])"
  using assms guarded_falsy [of op cur pg d] by simp

theorem guarded_noop_witness:
  "start ToggleBudgetStatus example_dom (initial_page ''t'') = (initial_page ''t'', [])
   \<and> start MarkCompleteAjax example_dom (initial_page ''t'') = (initial_page ''t'', [])
   \<and> start OpenEditModal example_dom (initial_page ''t'') = (initial_page ''t'', [])"
  using guarded_noop [of ToggleBudgetStatus currentBudget "initial_page ''t''" example_dom]
        guarded_noop [of MarkCompleteAjax currentTransaction "initial_page ''t''" example_dom]
        guarded_noop [of OpenEditModal currentTransaction "initial_page ''t''" example_dom]
  by (simp add: initial_page_def)

text \<open>With a budget selected, the same operation does issue its request.\<close>

lemma toggle_selected_budget:
  "snd (start ToggleBudgetStatus d (pg\<lparr>currentBudget := example_budget ''1''\<rparr>))
     = [Fetch (post_json (pg\<lparr>currentBudget := example_budget ''1''\<rparr>)
                 ''/api/budget/1/toggle-status/'' (JObj [(''status'', JStr ''inactive'')]))]"
  by (simp add: toggleBudgetStatus_def example_budget_def)

subsection \<open>The token on mutating requests\<close>

lemma csrf_start:
  "Fetch rq \<in> set (snd (start op d pg)) \<Longrightarrow> req_method rq = ''POST''
   \<Longrightarrow> map_of (req_headers rq) ''X-CSRFToken'' = Some (csrfToken pg)"
  by (cases op)
     (auto simp: start_defs helper_defs Let_def check_categories_no_fetch
           split: if_splits option.splits)

lemma csrf_settle:
  "Fetch rq \<in> set (snd (settle op d pg r)) \<Longrightarrow> req_method rq = ''POST''
   \<Longrightarrow> map_of (req_headers rq) ''X-CSRFToken'' = Some (csrfToken pg)"
  by (cases op; cases r)
     (auto simp: settled_defs helper_defs promise_chain_def if_success_def view_then_def
                 render_defs
           split: if_splits completion.splits)

lemma mutation_posts:
  "entity_mutation op \<or> profile_mutation op \<Longrightarrow> Fetch rq \<in> set (snd (start op d pg))
   \<Longrightarrow> req_method rq = ''POST''"
  by (cases op) (auto simp: start_defs helper_defs Let_def split: if_splits)

text \<open>
  C2. Every mutating request the client issues carries the \<^verbatim>\<open>X-CSRFToken\<close> header, set
  to the token rendered into the page: each request of a create, update, delete,
  toggle-status or complete operation (and of the profile operations) is a POST, and
  every POST that any operation issues, when it starts or when its response is handled,
  has that header with that value.
\<close>

theorem post_carries_csrf_token:
  assumes "Fetch rq \<in> set (snd (start op d pg)) \<union> set (snd (settle op d pg r))"
  shows "(req_method rq = ''POST''
            \<longrightarrow> map_of (req_headers rq) ''X-CSRFToken'' = Some (csrfToken pg))
       \<and> ((entity_mutation op \<or> profile_mutation op) \<and> Fetch rq \<in> set (snd (start op d pg))
            \<longrightarrow> req_method rq = ''POST'')"
  using assms csrf_start [of rq op d pg] csrf_settle [of rq op d pg r]
        mutation_posts [of op rq d pg]
  by auto

theorem post_carries_csrf_token_witness:
  "map_of (req_headers (post_json (initial_page ''tok'') ''/api/budget/create/''
                          (budget_form_data example_dom))) ''X-CSRFToken''
     = Some ''tok''
   \<and> req_method (post_json (initial_page ''tok'') ''/api/budget/create/''
                    (budget_form_data example_dom)) = ''POST''"
  using post_carries_csrf_token
          [of "post_json (initial_page ''tok'') ''/api/budget/create/''
                 (budget_form_data example_dom)"
              SaveBudget example_dom "initial_page ''tok''" NetworkError]
  by (simp add: saveBudget_def example_dom_def initial_page_def)

subsection \<open>The two branches of a mutation's response\<close>



lemma legacy_result:
  "legacy op \<Longrightarrow> js_get v ''success'' = JBool b \<Longrightarrow>
   settle op d pg (Parsed v) =
     (pg, if b then [ReloadNow] else [Alert (''Error: '' @ to_string (js_get v ''error''))])"
  by (cases op; cases v)
     (auto simp: settled_defs helper_defs promise_chain_def if_success_def)




text \<open>
  On the transactions page the toast is skipped when its container is missing, while
  the listing is still re-queried.
\<close>

lemma toast_needs_container:
  "\<not> present d ''toast-container'' \<Longrightarrow>
   snd (settle SaveIncomeAjax d pg (Parsed (JObj [(''success'', JBool True)])))
     = HideModal ''incomeModal'' # snd (loadTransactions d pg)"
  by (simp add: saveIncome_ajax_settled_def promise_chain_def if_success_def
        showToast_guarded_def)

subsection \<open>Failures of the network and of parsing\<close>

lemma mutation_failure:
  "r = NetworkError \<or> r = ParseError \<Longrightarrow> entity_mutation op \<or> profile_mutation op \<Longrightarrow>
   \<not> legacy op \<Longrightarrow> (on_transactions_page op \<longrightarrow> present d ''toast-container'') \<Longrightarrow>
   settle op d pg r
     = (pg, [ConsoleError,
             Toast (JStr ''An error occurred'') ''error''
               (toast_html (''toast-'' @ date_now d) ''bg-danger'' ''An error occurred'')])"
  by (cases op) (auto simp: settled_defs promise_failed helper_defs)

lemma view_failure:
  "r = NetworkError \<or> r = ParseError \<Longrightarrow> detail_view op \<Longrightarrow>
   (on_transactions_page op \<longrightarrow> present d ''toast-container'') \<Longrightarrow>
   \<exists>m. m \<in> set [''budget'', ''category'', ''income source'', ''transaction'']
     \<and> settle op d pg r
         = (pg, [ConsoleError,
                 Toast (JStr (''Error loading '' @ m)) ''error''
                   (toast_html (''toast-'' @ date_now d) ''bg-danger'' (''Error loading '' @ m))])"
  by (cases op) (auto simp: settled_defs promise_failed helper_defs)

lemma legacy_failure:
  "r = NetworkError \<or> r = ParseError \<Longrightarrow> legacy op \<Longrightarrow>
   settle op d pg r = (pg, [ConsoleError, Alert ''An error occurred''])"
  by (cases op) (auto simp: settled_defs promise_failed)

lemma listing_failure:
  "r = NetworkError \<or> r = ParseError \<Longrightarrow> loadTransactions_settled d pg r = (pg, [ConsoleError])"
  by (auto simp: loadTransactions_settled_def promise_failed)

lemma settle_caught: "Uncaught \<notin> set (snd (settle op d pg r))"
  by (cases op; cases r)
     (auto simp: settled_defs helper_defs promise_chain_def if_success_def view_then_def
                 render_defs
           split: if_splits completion.splits)

text \<open>
  C3, as the scripts have it. When the request of an operation fails on the network or
  its response does not parse, the failure is caught (no exception leaves the handler)
  and the page variables stay as they are. A create, update, delete, toggle-status,
  complete or profile operation logs it and shows the toast "An error occurred" (on the
  transactions page, if the toast container exists); the older dashboard script logs it
  and raises the alert "An error occurred"; a detail-view fetch logs it and shows the
  toast "Error loading" followed by the entity's kind; the re-query of the listing only
  logs it.
\<close>

theorem failure_reports:
  assumes "r = NetworkError \<or> r = ParseError"
    and "on_transactions_page op \<longrightarrow> present d ''toast-container''"
    and "l = NetworkError \<or> l = ParseError"
  shows "Uncaught \<notin> set (snd (settle op d pg r))
       \<and> ((entity_mutation op \<or> profile_mutation op) \<and> \<not> legacy op \<longrightarrow>
            settle op d pg r
              = (pg, [ConsoleError,
                      Toast (JStr ''An error occurred'') ''error''
                        (toast_html (''toast-'' @ date_now d) ''bg-danger''
                           ''An error occurred'')]))
       \<and> (legacy op \<longrightarrow>
            settle op d pg r = (pg, [ConsoleError, Alert ''An error occurred'']))
       \<and> (detail_view op \<longrightarrow>
            (\<exists>m. m \<in> set [''budget'', ''category'', ''income source'', ''transaction'']
               \<and> settle op d pg r
                   = (pg, [ConsoleError,
                           Toast (JStr (''Error loading '' @ m)) ''error''
                             (toast_html (''toast-'' @ date_now d) ''bg-danger''
                                (''Error loading '' @ m))])))
       \<and> loadTransactions_settled d pg l = (pg, [ConsoleError])"
  using assms settle_caught [of op d pg r] mutation_failure [of r op d pg]
        legacy_failure [of r op d pg] view_failure [of r op d pg] listing_failure [of l d pg]
  by blast

theorem failure_reports_witness:
  "settle SaveBudget example_dom (initial_page ''t'') NetworkError
     = (initial_page ''t'',
        [ConsoleError,
         Toast (JStr ''An error occurred'') ''error''
           (toast_html ''toast-1730620800000'' ''bg-danger'' ''An error occurred'')])
   \<and> settle ConfirmDeleteAjax example_dom (initial_page ''t'') ParseError
     = (initial_page ''t'',
        [ConsoleError,
         Toast (JStr ''An error occurred'') ''error''
           (toast_html ''toast-1730620800000'' ''bg-danger'' ''An error occurred'')])
   \<and> loadTransactions_settled example_dom (initial_page ''t'') ParseError
     = (initial_page ''t'', [ConsoleError])"
  using failure_reports
          [of NetworkError SaveBudget example_dom ParseError "initial_page ''t''"]
        failure_reports
          [of ParseError ConfirmDeleteAjax example_dom ParseError "initial_page ''t''"]
  by (simp add: example_dom_def)

text \<open>
  A detail-view fetch that fails on the network shows its own message, not "An error
  occurred", and the re-query of the listing shows no toast at all.
\<close>

theorem view_failure_own_message:
  "snd (settle (ViewBudget (JNum ''1'')) example_dom (initial_page ''t'') NetworkError)
     = [ConsoleError,
        Toast (JStr ''Error loading budget'') ''error''
          (toast_html ''toast-1730620800000'' ''bg-danger'' ''Error loading budget'')]
   \<and> snd (loadTransactions_settled example_dom (initial_page ''t'') NetworkError)
     = [ConsoleError]"
  by (simp add: viewBudget_settled_def loadTransactions_settled_def promise_chain_def
        showToast_def toast_element_def example_dom_def)

subsection \<open>Errors reported by the server\<close>

lemma mutation_error_message:
  "entity_mutation op \<or> profile_mutation op \<Longrightarrow> \<not> legacy op \<Longrightarrow>
   (on_transactions_page op \<longrightarrow> present d ''toast-container'') \<Longrightarrow>
   js_get v ''success'' = JBool False \<Longrightarrow> js_get v ''error'' = JStr msg \<Longrightarrow>
   msg \<noteq> [] \<or> on_transactions_page op \<Longrightarrow>
   settle op d pg (Parsed v)
     = (pg, [Toast (JStr msg) ''error''
               (toast_html (''toast-'' @ date_now d) ''bg-danger'' msg)])"
  by (cases op; cases v)
     (auto simp: settled_defs helper_defs promise_chain_def if_success_def js_or_def)

lemma view_error_message:
  "detail_view op \<Longrightarrow> (on_transactions_page op \<longrightarrow> present d ''toast-container'') \<Longrightarrow>
   js_get v ''success'' = JBool False \<Longrightarrow>
   \<exists>m. m \<in> set [''budget'', ''category'', ''income source'', ''transaction'']
     \<and> settle op d pg (Parsed v)
         = (pg, [Toast (JStr (''Error loading '' @ m)) ''error''
                   (toast_html (''toast-'' @ date_now d) ''bg-danger'' (''Error loading '' @ m))])"
  by (cases op; cases v)
     (auto simp: settled_defs helper_defs promise_chain_def view_then_def)

text \<open>The message stands in the markup as it is, as the content of the toast body.\<close>

lemma toast_html_body:
  \<open>\<exists>before after.
     toast_html toastId bgClass message
       = before @ ''<div class="toast-body">'' @ message @ ''</div>'' @ after\<close>
proof -
  have \<open>toast_html toastId bgClass message
          = (''\<newline>        <div id="'' @ toastId
             @ ''" class="toast align-items-center text-white '' @ bgClass
             @ '' border-0" role="alert">\<newline>            <div class="d-flex">\<newline>''
             @ ''                '')
            @ ''<div class="toast-body">'' @ message @ ''</div>''
            @ (''\<newline>''
               @ ''                <button type="button" class="btn-close btn-close-white me-2 m-auto"''
               @ '' data-bs-dismiss="toast"></button>\<newline>            </div>\<newline>''
               @ ''        </div>\<newline>    '')\<close>
    by (simp add: toast_html_def)
  then show ?thesis by blast
qed

text \<open>
  C4, as the scripts have it. When the response parses to an object whose \<open>success\<close> is
  \<open>false\<close> and whose \<open>error\<close> is the string \<open>msg\<close>: a create, update, delete,
  toggle-status, complete or profile operation hands exactly \<open>msg\<close> to \<open>showToast\<close> as
  an error toast, provided \<open>msg\<close> is not empty (an empty one is replaced by a fixed text,
  except on the transactions page, where the toast needs its container), and
  \<open>showToast\<close> puts \<open>msg\<close>, without escaping it, into the markup that it inserts into the
  page, as the content of the element \<open>toast-body\<close>: the browser reads \<open>msg\<close> as HTML.
  The older dashboard script raises the alert "Error: " followed by \<open>msg\<close>. A detail-view
  fetch shows the fixed toast "Error loading" followed by the entity's kind, whatever
  \<open>msg\<close> is.
\<close>

theorem server_error_shown:
  assumes "js_get v ''success'' = JBool False" and "js_get v ''error'' = JStr msg"
    and "on_transactions_page op \<longrightarrow> present d ''toast-container''"
  shows "((entity_mutation op \<or> profile_mutation op) \<and> \<not> legacy op
            \<and> (msg \<noteq> [] \<or> on_transactions_page op) \<longrightarrow>
            settle op d pg (Parsed v)
              = (pg, [Toast (JStr msg) ''error''
                        (toast_html (''toast-'' @ date_now d) ''bg-danger'' msg)]))
       \<and> (legacy op \<longrightarrow> settle op d pg (Parsed v) = (pg, [Alert (''Error: '' @ msg)]))
       \<and> (detail_view op \<longrightarrow>
            (\<exists>m. m \<in> set [''budget'', ''category'', ''income source'', ''transaction'']
               \<and> settle op d pg (Parsed v)
                   = (pg, [Toast (JStr (''Error loading '' @ m)) ''error''
                             (toast_html (''toast-'' @ date_now d) ''bg-danger''
                                (''Error loading '' @ m))])))"
  using assms mutation_error_message [of op d v msg pg] view_error_message [of op d v pg]
        legacy_result [of op v False d pg]
  by auto

theorem server_error_shown_witness:
  "settle ToggleBudgetStatus example_dom (initial_page ''t'')
     (Parsed (JObj [(''success'', JBool False), (''error'', JStr ''Budget is archived'')]))
     = (initial_page ''t'',
        [Toast (JStr ''Budget is archived'') ''error''
           (toast_html ''toast-1730620800000'' ''bg-danger'' ''Budget is archived'')])"
  using server_error_shown
          [of "JObj [(''success'', JBool False), (''error'', JStr ''Budget is archived'')]"
              "''Budget is archived''" ToggleBudgetStatus example_dom "initial_page ''t''"]
  by (simp add: example_dom_def)

text \<open>A detail-view fetch that the server refuses shows its own text, not the server's.\<close>

theorem view_error_own_message:
  "snd (settle (ViewBudget (JNum ''1'')) example_dom (initial_page ''t'')
          (Parsed (JObj [(''success'', JBool False), (''error'', JStr ''Budget not found'')])))
     = [Toast (JStr ''Error loading budget'') ''error''
          (toast_html ''toast-1730620800000'' ''bg-danger'' ''Error loading budget'')]"
  by (simp add: viewBudget_settled_def promise_chain_def view_then_def showToast_def
        toast_element_def example_dom_def)

text \<open>An empty message from the server is replaced by the operation's fixed text.\<close>

lemma empty_error_replaced:
  "snd (settle SaveBudget d pg
          (Parsed (JObj [(''success'', JBool False), (''error'', JStr [])])))
     = [Toast (JStr ''Error saving budget'') ''error''
          (toast_html (''toast-'' @ date_now d) ''bg-danger'' ''Error saving budget'')]"
  by (simp add: saveBudget_settled_def promise_chain_def if_success_def showToast_def
        toast_element_def js_or_def)

text \<open>
  Markup in the server's message reaches the page as markup: here the toast body gets
  an element \<open>b\<close>, not the text of its tags.
\<close>

lemma markup_in_message:
  \<open>\<exists>before after.
     snd (settle SaveBudget d pg
            (Parsed (JObj [(''success'', JBool False),
                           (''error'', JStr ''Amount must be <b>positive</b>'')])))
       = [Toast (JStr ''Amount must be <b>positive</b>'') ''error''
            (before @ ''<div class="toast-body">Amount must be <b>positive</b></div>''
               @ after)]\<close>
proof -
  obtain before after where
    \<open>toast_html (''toast-'' @ date_now d) ''bg-danger'' ''Amount must be <b>positive</b>''
       = before @ ''<div class="toast-body">'' @ ''Amount must be <b>positive</b>''
           @ ''</div>'' @ after\<close>
    using toast_html_body by blast
  then show ?thesis
    by (intro exI [of _ before] exI [of _ after])
       (simp add: saveBudget_settled_def promise_chain_def if_success_def showToast_def
          toast_element_def js_or_def)
qed

subsection \<open>The current entity after a detail-view fetch\<close>

text \<open>
  C8, as the scripts have it. After a detail-view fetch settles (\<open>viewBudget\<close>,
  \<open>viewCategory\<close>, \<open>viewIncomeSource\<close>, \<open>viewTransaction\<close>, and the dashboard's
  \<open>viewDashboardTransaction\<close>), the page's current-entity variable holds the \<open>data\<close> of
  the response when the response parses to a value whose \<open>success\<close> is truthy; in every
  other case (a refused, unparsable or failed request) it holds what it held before.
\<close>

theorem view_overwrites_current:
  assumes "detail_view op" and "current_entity op = Some cur"
  shows "cur (fst (settle op d pg r)) =
           (case r of
              Parsed v \<Rightarrow>
                if \<not> nullish v \<and> truthy (js_get v ''success'') then js_get v ''data''
                else cur pg
            | NetworkError \<Rightarrow> cur pg
            | ParseError \<Rightarrow> cur pg)"
  using assms
  by (cases op; cases r)
     (auto simp: settled_defs helper_defs promise_chain_def view_then_def render_defs
           split: if_splits)

theorem view_overwrites_current_witness:
  "currentBudget
     (fst (settle (ViewBudget (JNum ''2'')) example_dom (selected_page (example_budget ''1''))
             (Parsed (JObj [(''success'', JBool True), (''data'', example_budget ''2'')]))))
     = example_budget ''2''"
  using view_overwrites_current
          [of "ViewBudget (JNum ''2'')" currentBudget example_dom
              "selected_page (example_budget ''1'')"
              "Parsed (JObj [(''success'', JBool True), (''data'', example_budget ''2'')])"]
  by simp

text \<open>
  A detail-view fetch whose response is refused leaves the entity selected before in
  place, although the response carries entity data.
\<close>

theorem refused_view_keeps_current:
  "currentBudget
     (fst (settle (ViewBudget (JNum ''2'')) example_dom (selected_page (example_budget ''1''))
             (Parsed (JObj [(''success'', JBool False), (''data'', example_budget ''2'')]))))
     = example_budget ''1''
   \<and> example_budget ''1'' \<noteq> example_budget ''2''"
  by (simp add: viewBudget_settled_def promise_chain_def view_then_def showToast_def
        example_budget_def selected_page_def)

subsection \<open>Endpoints and bodies of the save operations\<close>

text \<open>
  C5, as the scripts have it. Each save operation with a hidden id field issues one POST
  and selects its address by that field. \<open>saveBudget\<close>, \<open>saveCategory\<close> and
  \<open>saveIncomeSource\<close> post to \<^verbatim>\<open>/api/<entity>/create/\<close> when the field is empty and to
  \<^verbatim>\<open>/api/<entity>/<id>/update/\<close> otherwise. \<open>saveIncome\<close> and \<open>saveExpense\<close> (transactions
  page and dashboard) post to \<^verbatim>\<open>/api/<kind>/create/\<close> when the field is empty and to
  \<^verbatim>\<open>/api/transaction/<kind>/<id>/update/\<close> otherwise. The older dashboard script reads no
  id and always posts to \<^verbatim>\<open>/api/<kind>/create/\<close>.
\<close>

theorem save_endpoints:
  "((op, entity, field) \<in> {(SaveBudget, ''budget'', ''budget-id''),
                            (SaveCategory, ''category'', ''category-id''),
                            (SaveIncomeSource, ''income-source'', ''source-id'')} \<longrightarrow>
      map (\<lambda>rq. (req_method rq, req_url rq)) (requests (snd (start op d pg)))
        = [(''POST'', if value_of d field = [] then ''/api/'' @ entity @ ''/create/''
                      else ''/api/'' @ entity @ ''/'' @ value_of d field @ ''/update/'')])
   \<and> ((op, entity, field) \<in> {(SaveIncomeAjax, ''income'', ''income-id''),
                              (SaveIncomeReload, ''income'', ''income-id''),
                              (SaveIncomeDashboard, ''income'', ''income-id''),
                              (SaveExpenseAjax, ''expense'', ''expense-id''),
                              (SaveExpenseReload, ''expense'', ''expense-id''),
                              (SaveExpenseDashboard, ''expense'', ''expense-id'')} \<longrightarrow>
      map (\<lambda>rq. (req_method rq, req_url rq)) (requests (snd (start op d pg)))
        = [(''POST'', if value_of d field = [] then ''/api/'' @ entity @ ''/create/''
                      else ''/api/transaction/'' @ entity @ ''/'' @ value_of d field
                             @ ''/update/'')])
   \<and> ((op, entity) \<in> {(SaveIncomeLegacy, ''income''), (SaveExpenseLegacy, ''expense'')} \<longrightarrow>
      map (\<lambda>rq. (req_method rq, req_url rq)) (requests (snd (start op d pg)))
        = [(''POST'', ''/api/'' @ entity @ ''/create/'')])"
  by (auto simp: start_defs helper_defs transaction_save_url_def Let_def)

theorem save_endpoints_witness:
  "map (\<lambda>rq. (req_method rq, req_url rq))
     (requests (snd (start SaveBudget example_dom (initial_page ''t''))))
     = [(''POST'', ''/api/budget/create/'')]
   \<and> map (\<lambda>rq. (req_method rq, req_url rq))
       (requests (snd (start SaveIncomeAjax example_dom (initial_page ''t''))))
     = [(''POST'', ''/api/transaction/income/7/update/'')]"
  using save_endpoints
          [of SaveBudget "''budget''" "''budget-id''" example_dom "initial_page ''t''"]
        save_endpoints
          [of SaveIncomeAjax "''income''" "''income-id''" example_dom "initial_page ''t''"]
  by (simp add: example_dom_def)

text \<open>
  \<open>saveIncome\<close> creates under \<^verbatim>\<open>/api/income/\<close> but updates income 7 under
  \<^verbatim>\<open>/api/transaction/income/\<close>, not at \<^verbatim>\<open>/api/income/7/update/\<close>.
\<close>

theorem income_update_endpoint:
  "map req_url (requests (snd (saveIncome example_dom (initial_page ''t''))))
     = [''/api/transaction/income/7/update/'']
   \<and> map req_url (requests (snd (saveIncome blank_dom (initial_page ''t''))))
     = [''/api/income/create/'']
   \<and> ''/api/transaction/income/7/update/'' \<noteq> ''/api/income/7/update/''"
  by (simp add: saveIncome_def post_json_def transaction_save_url_def example_dom_def
        blank_dom_def)

text \<open>
  C6. Submitting the budget form issues one POST whose JSON body has exactly the fields
  \<open>name\<close>, \<open>amount\<close>, \<open>currency\<close>, \<open>start_date\<close>, \<open>end_date\<close>, \<open>recurrence_pattern\<close> and
  \<open>budget_type\<close>, each with the value of its form control (\<open>end_date\<close> is \<^verbatim>\<open>null\<close> when
  the control is blank), and the field \<open>category_ids\<close>, the list of the values of the
  checked category boxes, exactly when \<open>budget_type\<close> is \<open>category_filter\<close>.
\<close>

theorem budget_form_body:
  "\<exists>rq kvs. snd (saveBudget d pg) = [Fetch rq]
     \<and> req_method rq = ''POST''
     \<and> req_url rq
         = (if value_of d ''budget-id'' = [] then ''/api/budget/create/''
            else ''/api/budget/'' @ value_of d ''budget-id'' @ ''/update/'')
     \<and> map_of (req_headers rq) ''Content-Type'' = Some ''application/json''
     \<and> req_body rq = Some (JObj kvs)
     \<and> map fst kvs
         = [''name'', ''amount'', ''currency'', ''start_date'', ''end_date'',
            ''recurrence_pattern'', ''budget_type'']
           @ (if value_of d ''budget-type'' = ''category_filter'' then [''category_ids'']
              else [])
     \<and> map_of kvs ''name'' = Some (JStr (value_of d ''budget-name''))
     \<and> map_of kvs ''amount'' = Some (JStr (value_of d ''budget-amount''))
     \<and> map_of kvs ''currency'' = Some (JStr (value_of d ''budget-currency''))
     \<and> map_of kvs ''start_date'' = Some (JStr (value_of d ''budget-start-date''))
     \<and> map_of kvs ''end_date''
         = Some (if value_of d ''budget-end-date'' = [] then JNull
                 else JStr (value_of d ''budget-end-date''))
     \<and> map_of kvs ''recurrence_pattern'' = Some (JStr (value_of d ''budget-recurrence''))
     \<and> map_of kvs ''budget_type'' = Some (JStr (value_of d ''budget-type''))
     \<and> map_of kvs ''category_ids''
         = (if value_of d ''budget-type'' = ''category_filter''
            then Some (JArr (map JStr (checked_categories d))) else None)"
  by (simp add: saveBudget_def budget_form_data_def js_or_def Let_def post_json_def)

theorem budget_form_body_witness:
  "\<exists>rq. snd (saveBudget example_dom (initial_page ''t'')) = [Fetch rq]
     \<and> req_method rq = ''POST''
     \<and> req_url rq = ''/api/budget/create/''
     \<and> req_body rq
         = Some (JObj [(''name'', JStr ''Food''), (''amount'', JStr ''250''),
                       (''currency'', JStr ''USD''), (''start_date'', JStr ''2025-01-01''),
                       (''end_date'', JNull), (''recurrence_pattern'', JStr ''monthly''),
                       (''budget_type'', JStr ''category_filter''),
                       (''category_ids'', JArr [JStr ''3'', JStr ''5''])])"
proof -
  obtain rq kvs where rq: "snd (saveBudget example_dom (initial_page ''t'')) = [Fetch rq]"
      "req_method rq = ''POST''" "req_body rq = Some (JObj kvs)"
    and url: "req_url rq
                = (if value_of example_dom ''budget-id'' = [] then ''/api/budget/create/''
                   else ''/api/budget/'' @ value_of example_dom ''budget-id'' @ ''/update/'')"
    using budget_form_body [of example_dom "initial_page ''t''"] by blast
  have "req_body rq = Some (budget_form_data example_dom)"
    using rq(1) by (auto simp: saveBudget_def Let_def post_json_def)
  with rq url show ?thesis
    by (simp add: budget_form_data_def js_or_def example_dom_def)
qed

text \<open>A blank form is a manual budget to be created: no \<open>category_ids\<close>, no end date.\<close>

lemma blank_budget_form:
  "map req_body (requests (snd (saveBudget blank_dom pg)))
     = [Some (JObj [(''name'', JStr []), (''amount'', JStr []), (''currency'', JStr []),
                    (''start_date'', JStr []), (''end_date'', JNull),
                    (''recurrence_pattern'', JStr []), (''budget_type'', JStr [])])]"
  by (simp add: saveBudget_def budget_form_data_def js_or_def Let_def post_json_def
        blank_dom_def example_dom_def)

subsection \<open>The search box\<close>

lemma typed_fold_value:
  "ws \<noteq> [] \<Longrightarrow> value_of (foldl typed d ws) ''searchInput'' = last ws"
  by (induction ws arbitrary: d rule: rev_induct) (auto simp: typed_def)

lemma typed_fold_rest:
  "present (foldl typed d ws) = present d \<and>
   location_pathname (foldl typed d ws) = location_pathname d \<and>
   location_search (foldl typed d ws) = location_search d"
  by (induction ws arbitrary: d rule: rev_induct) (auto simp: typed_def)

text \<open>
  Within a burst every timeout is cancelled by the next input, so the callback runs
  once, after the last input, on the document as the inputs left it.
\<close>

lemma search_inputs_armed:
  "burst delay ((t, w) # evs) \<Longrightarrow> t < due \<Longrightarrow>
   search_inputs delay cb d pg (Armed due) ((t, w) # evs)
     = cb (foldl typed d (w # map snd evs)) pg"
proof (induction evs arbitrary: t w due d)
  case Nil
  then show ?case by simp
next
  case (Cons e evs)
  obtain t' w' where e: "e = (t', w')" by (cases e)
  from Cons.prems e have b: "burst delay ((t', w') # evs)" and lt: "t' < t + delay"
    by simp_all
  have "search_inputs delay cb d pg (Armed due) ((t, w) # e # evs)
          = search_inputs delay cb (typed d w) pg (Armed (t + delay)) ((t', w') # evs)"
    using Cons.prems e by simp
  also have "\<dots> = cb (foldl typed (typed d w) (w' # map snd evs)) pg"
    using Cons.IH [OF b lt] .
  finally show ?case using e by simp
qed

lemma search_inputs_idle:
  assumes "evs \<noteq> []" and "burst delay evs"
  shows "search_inputs delay cb d pg Idle evs = cb (foldl typed d (map snd evs)) pg"
proof (cases evs)
  case Nil
  with assms show ?thesis by simp
next
  case (Cons e rest)
  obtain t w where e: "e = (t, w)" by (cases e)
  show ?thesis
  proof (cases rest)
    case Nil
    with \<open>evs = e # rest\<close> e show ?thesis by simp
  next
    case (Cons f more)
    obtain t' w' where f: "f = (t', w')" by (cases f)
    from assms \<open>evs = e # rest\<close> Cons e f
    have b: "burst delay ((t', w') # more)" and lt: "t' < t + delay" by simp_all
    show ?thesis
      using search_inputs_armed [OF b lt, of cb "typed d w" pg] \<open>evs = e # rest\<close> Cons e f
      by simp
  qed
qed

lemma params_delete_absent: "map_of (params_delete k ps) k = None"
  by (induction ps) (auto simp: params_delete_def)

text \<open>
  C7. On the transactions page each input in the search box cancels the pending timeout
  and schedules a new one after a fixed delay (400 ms in the version that refreshes
  the listing, 500 ms in the version that reloads). So a burst of inputs, each less
  than the delay after the one before, triggers exactly one re-query: in the first
  version one request for the listing, for page 1 and with the text of the last input;
  in the second one navigation to the filtered address, without a \<open>page\<close> parameter.
\<close>

theorem search_burst_one_query:
  assumes "evs \<noteq> []" and "present d ''searchInput''"
  shows "(burst 400 evs \<longrightarrow>
            (\<exists>rq. snd (search_inputs_ajax d pg Idle evs) = [Fetch rq]
                  \<and> is_refresh (Fetch rq)
                  \<and> map_of (req_query rq) ''page'' = Some ''1''
                  \<and> map_of (req_query rq) ''search'' = Some (snd (last evs))))
       \<and> (burst 500 evs \<longrightarrow>
            (\<exists>ps. snd (search_inputs_reload d pg Idle evs)
                     = [Navigate (location_pathname d) ps]
                  \<and> map_of ps ''page'' = None))"
proof (intro conjI impI)
  assume b: "burst 400 evs"
  have last_text: "value_of (foldl typed d (map snd evs)) ''searchInput'' = snd (last evs)"
    using assms(1) typed_fold_value [of "map snd evs" d] by (simp add: last_map)
  show "\<exists>rq. snd (search_inputs_ajax d pg Idle evs) = [Fetch rq]
              \<and> is_refresh (Fetch rq)
              \<and> map_of (req_query rq) ''page'' = Some ''1''
              \<and> map_of (req_query rq) ''search'' = Some (snd (last evs))"
    using assms last_text
    by (simp add: search_inputs_ajax_def search_inputs_idle [OF assms(1) b]
          search_timeout_def loadTransactions_def opt_value_def typed_fold_rest)
next
  assume b: "burst 500 evs"
  show "\<exists>ps. snd (search_inputs_reload d pg Idle evs) = [Navigate (location_pathname d) ps]
              \<and> map_of ps ''page'' = None"
    by (simp add: search_inputs_reload_def search_inputs_idle [OF assms(1) b]
          applyFilters_def typed_fold_rest params_delete_absent)
qed

theorem search_burst_one_query_witness:
  "\<exists>rq. snd (search_inputs_ajax example_dom third_page Idle
               [(0, ''r''), (120, ''re''), (500, ''ren''), (899, ''rent'')])
          = [Fetch rq]
     \<and> map_of (req_query rq) ''page'' = Some ''1''
     \<and> map_of (req_query rq) ''search'' = Some ''rent''"
  using search_burst_one_query
          [of "[(0, ''r''), (120, ''re''), (500, ''ren''), (899, ''rent'')]" example_dom
              third_page]
  by (auto simp: example_dom_def)

text \<open>Inputs a full delay apart are not a burst: each one is followed by its own re-query.\<close>

lemma search_pause_two_queries:
  "map (\<lambda>rq. map_of (req_query rq) ''search'')
     (requests (snd (search_inputs_ajax example_dom (initial_page ''t'') Idle
                       [(0, ''r''), (400, ''re'')])))
     = [Some ''r'', Some ''re'']"
  by (simp add: search_inputs_ajax_def search_timeout_def loadTransactions_def
        opt_value_def typed_def example_dom_def)

end
